theory Spec2Isabelle
  imports Complex_Main "HOL-Library.Word" "HOL-Library.Sublist"
    "HOL-Library.Char_ord" "HOL-Library.List_Lexorder"
begin

section \<open>Configuration loading of btcd (config.go)\<close>

text \<open>
  A shallow embedding of \<^verbatim>\<open>config.go\<close>: the helper functions
  (\<^verbatim>\<open>validLogLevel\<close>, \<^verbatim>\<open>parseAndSetDebugLevels\<close>, \<^verbatim>\<open>normalizeAddresses\<close>, ...),
  the pipeline \<^verbatim>\<open>loadConfig\<close> and the two dispatchers \<^verbatim>\<open>btcdDial\<close> and
  \<^verbatim>\<open>btcdLookup\<close>. Go strings are byte strings and are modelled as \<open>string\<close>;
  \<^verbatim>\<open>uint32\<close> is \<open>32 word\<close>; \<^verbatim>\<open>time.Duration\<close> is an \<open>int\<close> of nanoseconds.
  The functions of the Go library on strings and on host:port addresses that the file
  calls are modelled after the library. Everything else the file calls but does not define
  (the flags and INI parsers, the operating system, the path functions, the resolver, the
  address decoder) is a field of the record \<open>env\<close> below, so that no behaviour of those
  collaborators is assumed.
\<close>

subsection \<open>The Go string functions used by the file\<close>

text \<open>\<^verbatim>\<open>strings.HasPrefix\<close>: \<^verbatim>\<open>len(s) >= len(prefix) && s[0:len(prefix)] == prefix\<close>.\<close>

definition HasPrefix :: "string \<Rightarrow> string \<Rightarrow> bool" where
  "HasPrefix s pre = (length pre \<le> length s \<and> take (length pre) s = pre)"

text \<open>\<^verbatim>\<open>strings.HasSuffix\<close>: \<^verbatim>\<open>len(s) >= len(suffix) && s[len(s)-len(suffix):] == suffix\<close>.\<close>

definition HasSuffix :: "string \<Rightarrow> string \<Rightarrow> bool" where
  "HasSuffix s suf = (length suf \<le> length s \<and> drop (length s - length suf) s = suf)"

text \<open>\<^verbatim>\<open>strings.Contains\<close>: some position of \<open>s\<close> starts with \<open>substr\<close>.\<close>

fun Contains :: "string \<Rightarrow> string \<Rightarrow> bool" where
  "Contains [] substr = (substr = [])"
| "Contains (c # cs) substr = (HasPrefix (c # cs) substr \<or> Contains cs substr)"

text \<open>
  \<^verbatim>\<open>strings.Split(s, sep)\<close> for a separator of one byte, which is how the file calls it
  (\<^verbatim>\<open>","\<close> and \<^verbatim>\<open>"="\<close>): the pieces between the separators, so a string without
  separator gives one piece and the empty string gives one empty piece.
\<close>

fun Split :: "string \<Rightarrow> char \<Rightarrow> string list" where
  "Split [] sep = [[]]"
| "Split (c # cs) sep =
     (if c = sep then [] # Split cs sep
      else (case Split cs sep of [] \<Rightarrow> [[c]] | p # ps \<Rightarrow> (c # p) # ps))"

text \<open>\<^verbatim>\<open>strings.Replace(s, old, new, 1)\<close>: the first occurrence of \<open>old\<close> is replaced.\<close>

fun Replace1 :: "string \<Rightarrow> string \<Rightarrow> string \<Rightarrow> string" where
  "Replace1 [] old new = (if old = [] then new else [])"
| "Replace1 (c # cs) old new =
     (if HasPrefix (c # cs) old then new @ drop (length old) (c # cs)
      else c # Replace1 cs old new)"

text \<open>Index of the first and of the last occurrence of a byte; \<open>None\<close> is Go's \<open>-1\<close>.\<close>

fun IndexByte :: "string \<Rightarrow> char \<Rightarrow> nat option" where
  "IndexByte [] c = None"
| "IndexByte (x # xs) c =
     (if x = c then Some 0 else map_option Suc (IndexByte xs c))"

definition LastIndexByte :: "string \<Rightarrow> char \<Rightarrow> nat option" where
  "LastIndexByte s c = map_option (\<lambda>i. length s - 1 - i) (IndexByte (rev s) c)"

subsection \<open>Host and port of an address (package net of the Go library)\<close>

datatype addr_error =
    MissingPort | TooManyColons | MissingBracket | UnexpectedOpen | UnexpectedClose

text \<open>
  \<^verbatim>\<open>net.SplitHostPort\<close>. The port starts after the last colon; a host in brackets must
  close its bracket just before that colon; no other bracket may occur.
\<close>

definition bracketChecks ::
  "string \<Rightarrow> nat \<Rightarrow> nat \<Rightarrow> nat \<Rightarrow> string \<Rightarrow> addr_error + (string \<times> string)" where
  "bracketChecks hostport i j k host =
     (if CHR ''['' \<in> set (drop j hostport) then Inl UnexpectedOpen
      else if CHR '']'' \<in> set (drop k hostport) then Inl UnexpectedClose
      else Inr (host, drop (i + 1) hostport))"

definition SplitHostPort :: "string \<Rightarrow> addr_error + (string \<times> string)" where
  "SplitHostPort hostport =
     (case LastIndexByte hostport CHR '':'' of
        None \<Rightarrow> Inl MissingPort
      | Some i \<Rightarrow>
          if take 1 hostport = ''[''
          then (case IndexByte hostport CHR '']'' of
                  None \<Rightarrow> Inl MissingBracket
                | Some e \<Rightarrow>
                    if e + 1 = length hostport then Inl MissingPort
                    else if e + 1 = i
                      then bracketChecks hostport i 1 (e + 1) (take (e - 1) (drop 1 hostport))
                    else if take 1 (drop (e + 1) hostport) = '':'' then Inl TooManyColons
                    else Inl MissingPort)
          else if CHR '':'' \<in> set (take i hostport) then Inl TooManyColons
          else bracketChecks hostport i 0 0 (take i hostport))"

text \<open>\<^verbatim>\<open>net.JoinHostPort\<close>: a host with a colon is taken for an IPv6 literal and bracketed.\<close>

definition JoinHostPort :: "string \<Rightarrow> string \<Rightarrow> string" where
  "JoinHostPort host port =
     (if CHR '':'' \<in> set host then ''['' @ host @ '']:'' @ port
      else host @ '':'' @ port)"

subsection \<open>Log levels (lines 133-215)\<close>

fun validLogLevel :: "string \<Rightarrow> bool" where
  "validLogLevel logLevel =
     (if logLevel = ''trace'' then True
      else if logLevel = ''debug'' then True
      else if logLevel = ''info'' then True
      else if logLevel = ''warn'' then True
      else if logLevel = ''error'' then True
      else if logLevel = ''critical'' then True
      else False)"

declare validLogLevel.simps [simp del]

text \<open>
  \<^verbatim>\<open>subsystemLoggers\<close> is a map declared in another file; only its keys matter here.
  They are a parameter: the list of keys in whatever order the map iteration yields them.
  \<^verbatim>\<open>sort.Strings\<close> orders byte-wise, which is the lexicographic order on \<open>string\<close>.
\<close>

definition supportedSubsystems :: "string list \<Rightarrow> string list" where
  "supportedSubsystems subsystemLoggers = sort subsystemLoggers"

datatype debug_error =
    InvalidDebugLevel string
  | InvalidLevelPair string
  | InvalidSubsystem string "string list"
  | IndexOutOfRange

text \<open>The calls to the logging backend that the parser makes, in order.\<close>

datatype log_call = SetLogLevels string | SetLogLevel string string

text \<open>The loop over the subsystem/level pairs (lines 187-212).\<close>

fun setLevelPairs :: "string list \<Rightarrow> string list \<Rightarrow> log_call list \<times> debug_error option" where
  "setLevelPairs subsystemLoggers [] = ([], None)"
| "setLevelPairs subsystemLoggers (logLevelPair # pairs) =
     (if \<not> Contains logLevelPair ''='' then ([], Some (InvalidLevelPair logLevelPair))
      else (case Split logLevelPair CHR ''='' of
              subsysID # logLevel # _ \<Rightarrow>
                if subsysID \<notin> set subsystemLoggers
                  then ([], Some (InvalidSubsystem subsysID (supportedSubsystems subsystemLoggers)))
                else if \<not> validLogLevel logLevel then ([], Some (InvalidDebugLevel logLevel))
                else (case setLevelPairs subsystemLoggers pairs of
                        (calls, err) \<Rightarrow> (SetLogLevel subsysID logLevel # calls, err))
            | _ \<Rightarrow> ([], Some IndexOutOfRange)))"

definition parseAndSetDebugLevels ::
  "string list \<Rightarrow> string \<Rightarrow> log_call list \<times> debug_error option" where
  "parseAndSetDebugLevels subsystemLoggers debugLevel =
     (if \<not> Contains debugLevel '','' \<and> \<not> Contains debugLevel ''=''
      then (if \<not> validLogLevel debugLevel then ([], Some (InvalidDebugLevel debugLevel))
            else ([SetLogLevels debugLevel], None))
      else setLevelPairs subsystemLoggers (Split debugLevel CHR '',''))"

subsection \<open>Database type and address lists (lines 217-260)\<close>

fun validDbType :: "string list \<Rightarrow> string \<Rightarrow> bool" where
  "validDbType [] dbType = False"
| "validDbType (knownType # knownDbTypes) dbType =
     (if dbType = knownType then True else validDbType knownDbTypes dbType)"

text \<open>The loop of \<^verbatim>\<open>removeDuplicateAddresses\<close>, with its result slice and its map of seen values.\<close>

fun removeDuplicatesLoop ::
  "string list \<Rightarrow> (string \<rightharpoonup> bool) \<Rightarrow> string list \<Rightarrow> string list" where
  "removeDuplicatesLoop result seen [] = result"
| "removeDuplicatesLoop result seen (val # addrs) =
     (case seen val of
        None \<Rightarrow> removeDuplicatesLoop (result @ [val]) (seen(val \<mapsto> True)) addrs
      | Some _ \<Rightarrow> removeDuplicatesLoop result seen addrs)"

definition removeDuplicateAddresses :: "string list \<Rightarrow> string list" where
  "removeDuplicateAddresses addrs = removeDuplicatesLoop [] Map.empty addrs"

definition normalizeAddress :: "string \<Rightarrow> string \<Rightarrow> string" where
  "normalizeAddress addr defaultPort =
     (case SplitHostPort addr of
        Inl err \<Rightarrow> JoinHostPort addr defaultPort
      | Inr _ \<Rightarrow> addr)"

text \<open>
  \<^verbatim>\<open>normalizeAddresses\<close> overwrites the slice entry by entry, each entry read before it
  is written, and hands the slice to \<^verbatim>\<open>removeDuplicateAddresses\<close>.
\<close>

definition normalizeAddresses :: "string list \<Rightarrow> string \<Rightarrow> string list" where
  "normalizeAddresses addrs defaultPort =
     removeDuplicateAddresses (map (\<lambda>addr. normalizeAddress addr defaultPort) addrs)"



subsection \<open>The configuration record (lines 64-111)\<close>

text \<open>
  The four function-valued fields hold closures. Each closure that \<^verbatim>\<open>loadConfig\<close> can
  store is a constructor here, and \<open>None\<close> is the \<^verbatim>\<open>nil\<close> function. \<open>SocksDial\<close> is
  the \<^verbatim>\<open>Dial\<close> method of a \<^verbatim>\<open>socks.Proxy\<close> built when the configuration is loaded;
  \<open>OnionSocksDial\<close>, \<open>TorLookupProxy\<close> and \<open>TorLookupOnion\<close> are the closures that read
  the fields of the configuration when they are called.
\<close>

datatype dial_strategy =
    NetDial
  | SocksDial string string string
  | OnionSocksDial
  | TorDisabledDial

datatype lookup_strategy =
    NetLookupIP
  | TorLookupProxy
  | TorLookupOnion
  | TorDisabledLookup

datatype address = Address string

record config =
  ShowVersion :: bool
  ConfigFile :: string
  DataDir :: string
  LogDir :: string
  AddPeers :: "string list"
  ConnectPeers :: "string list"
  DisableListen :: bool
  Listeners :: "string list"
  MaxPeers :: int
  BanDuration :: int
  RPCUser :: string
  RPCPass :: string
  RPCListeners :: "string list"
  RPCCert :: string
  RPCKey :: string
  RPCMaxClients :: int
  RPCMaxWebsockets :: int
  DisableRPC :: bool
  DisableDNSSeed :: bool
  ExternalIPs :: "string list"
  Proxy :: string
  ProxyUser :: string
  ProxyPass :: string
  OnionProxy :: string
  OnionProxyUser :: string
  OnionProxyPass :: string
  NoOnion :: bool
  TestNet3 :: bool
  RegressionTest :: bool
  SimNet :: bool
  DisableCheckpoints :: bool
  DbType :: string
  Profile :: string
  CpuProfile :: string
  DebugLevel :: string
  Upnp :: bool
  FreeTxRelayLimit :: real
  BlockMinSize :: "32 word"
  BlockMaxSize :: "32 word"
  BlockPrioritySize :: "32 word"
  GetWorkKeys :: "string list"
  onionlookup :: "lookup_strategy option"
  lookup :: "lookup_strategy option"
  oniondial :: "dial_strategy option"
  dial :: "dial_strategy option"
  miningKeys :: "address list"

subsection \<open>What the file takes from elsewhere\<close>

text \<open>A network profile, as far as this file reads it.\<close>

record params =
  Name :: string
  DefaultPort :: string
  rpcPort :: string

datatype flags_options = FlagsNone | FlagsDefault

datatype flags_error = ErrHelp | ErrOther string

text \<open>
  The error of reading the configuration file: an \<^verbatim>\<open>*os.PathError\<close> of some kind, or
  anything else.
\<close>

datatype path_error = NotExist | Permission | OtherPathError string

datatype file_error = PathError path_error | ParseFailure string

text \<open>
  The collaborators. \<open>ParseArgs\<close> is a parser of the command line made by
  \<^verbatim>\<open>newConfigParser\<close> with the given options and run on the configuration and the service
  command; it returns both as it leaves them, the remaining arguments and the error.
  \<open>ParseFile\<close> is the INI parser on the file of the given path. Both may change the
  configuration even when they fail.
\<close>

record env =
  MaxBlockPayload :: int
  btcdHomeDir :: string
  defaultConfigFile :: string
  defaultDataDir :: string
  defaultRPCKeyFile :: string
  defaultRPCCertFile :: string
  defaultLogDir :: string
  knownDbTypes :: "string list"
  subsystemLoggers :: "string list"
  mainNetParams :: params
  testNet3Params :: params
  regressionNetParams :: params
  simNetParams :: params
  netName :: "params \<Rightarrow> string"
  runServiceCommand :: "(string \<Rightarrow> string option) option"
  MkdirAll :: "string \<Rightarrow> string option"
  ParseArgs :: "flags_options \<Rightarrow> config \<times> string
                  \<Rightarrow> (config \<times> string) \<times> string list \<times> flags_error option"
  ParseFile :: "string \<Rightarrow> config \<times> string \<Rightarrow> (config \<times> string) \<times> file_error option"
  ExpandEnv :: "string \<Rightarrow> string"
  Clean :: "string \<Rightarrow> string"
  Dir :: "string \<Rightarrow> string"
  Join :: "string \<Rightarrow> string \<Rightarrow> string"
  Atoi :: "string \<Rightarrow> int option"
  LookupHost :: "string \<Rightarrow> string + string list"
  DecodeAddress :: "string \<Rightarrow> params \<Rightarrow> string + address"
  IsForNet :: "address \<Rightarrow> params \<Rightarrow> bool"

text \<open>
  Modelled from the spec: the package variable \<^verbatim>\<open>activeNetParams\<close> is declared and
  initialised outside \<^verbatim>\<open>config.go\<close>; section 4.5 of the specification has the
  main-network profile selected when no network flag is set, so that is its initial value.
\<close>

definition activeNetParams0 :: "env \<Rightarrow> params" where
  "activeNetParams0 e = mainNetParams e"

text \<open>
  Modelled from the spec: \<^verbatim>\<open>minUint32\<close> is defined outside \<^verbatim>\<open>config.go\<close>; section 4.6
  has the two sizes clipped down to the maximum when they exceed it.
\<close>

definition minUint32 :: "32 word \<Rightarrow> 32 word \<Rightarrow> 32 word" where
  "minUint32 a b = (if a < b then a else b)"

subsection \<open>Constants and results\<close>

definition defaultLogLevel :: string where "defaultLogLevel = ''info''"
definition defaultMaxPeers :: int where "defaultMaxPeers = 125"
definition second :: int where "second = 1000000000"
definition defaultBanDuration :: int where "defaultBanDuration = 3600 * second * 24"
definition defaultMaxRPCClients :: int where "defaultMaxRPCClients = 10"
definition defaultMaxRPCWebsockets :: int where "defaultMaxRPCWebsockets = 25"
definition defaultDbType :: string where "defaultDbType = ''leveldb''"
definition defaultFreeTxRelayLimit :: real where "defaultFreeTxRelayLimit = 15"
definition defaultBlockMinSize :: "32 word" where "defaultBlockMinSize = 0"
definition defaultBlockMaxSize :: "32 word" where "defaultBlockMaxSize = 750000"
definition blockMaxSizeMin :: int where "blockMaxSizeMin = 1000"
definition blockMaxSizeMax :: "env \<Rightarrow> int" where "blockMaxSizeMax e = MaxBlockPayload e - 1000"
definition defaultBlockPrioritySize :: "32 word" where "defaultBlockPrioritySize = 50000"
definition defaultLogFilename :: string where "defaultLogFilename = ''btcd.log''"

datatype load_error =
    MkdirError string
  | ConfigFileError string
  | ArgsError flags_error
  | MultipleNetsError
  | DebugLevelError debug_error
  | InvalidDbType string "string list"
  | InvalidProfilePort
  | BanDurationTooShort int
  | AddPeerConnectMixed
  | LookupHostError string
  | BlockMaxSizeOutOfRange int int "32 word"
  | GetWorkKeyDecodeError string string
  | GetWorkKeyWrongNet string

text \<open>What a failing run writes before it returns its error.\<close>

datatype emitted = LogError load_error | PrintError load_error | WriteHelp

datatype exit_reason =
    ShowedVersion
  | RanServiceCommand "string option"
  | ShowedSubsystems "string list"

text \<open>
  How a run of \<^verbatim>\<open>loadConfig\<close> ends without a configuration: the process exits with
  status 0, or the function returns an error after it has written what the list says.
\<close>

datatype stop =
    Exit exit_reason
  | Failed load_error "emitted list"

text \<open>
  The result of \<^verbatim>\<open>loadConfig\<close>: the run stops, or it returns the configuration and the
  remaining arguments. In the second case the network profile is the value of
  \<^verbatim>\<open>activeNetParams\<close> on return, and the last component is the deferred error of the
  configuration file, which is logged as a warning.
\<close>

datatype outcome =
    Stopped stop
  | Loaded config "string list" params "path_error option"

definition usageError :: "load_error \<Rightarrow> stop" where
  "usageError err = Failed err [PrintError err, WriteHelp]"

type_synonym state = "config \<times> params"

text \<open>Steps run in order; the first one that ends the run ends it.\<close>

fun runSteps :: "('s \<Rightarrow> stop + 's) list \<Rightarrow> 's \<Rightarrow> stop + 's" where
  "runSteps [] s = Inr s"
| "runSteps (step # steps) s =
     (case step s of Inl out \<Rightarrow> Inl out | Inr s' \<Rightarrow> runSteps steps s')"

subsection \<open>Paths (lines 121-131)\<close>

definition cleanAndExpandPath :: "env \<Rightarrow> string \<Rightarrow> string" where
  "cleanAndExpandPath e path =
     (let path' = (if HasPrefix path ''~''
                   then Replace1 path ''~'' (Dir e (btcdHomeDir e)) else path)
      in Clean e (ExpandEnv e path'))"

subsection \<open>Defaults and the three sources (lines 293-378)\<close>

definition defaultConfig :: "env \<Rightarrow> config" where
  "defaultConfig e =
     \<lparr> ShowVersion = False,
       ConfigFile = defaultConfigFile e,
       DataDir = defaultDataDir e,
       LogDir = defaultLogDir e,
       AddPeers = [],
       ConnectPeers = [],
       DisableListen = False,
       Listeners = [],
       MaxPeers = defaultMaxPeers,
       BanDuration = defaultBanDuration,
       RPCUser = [],
       RPCPass = [],
       RPCListeners = [],
       RPCCert = defaultRPCCertFile e,
       RPCKey = defaultRPCKeyFile e,
       RPCMaxClients = defaultMaxRPCClients,
       RPCMaxWebsockets = defaultMaxRPCWebsockets,
       DisableRPC = False,
       DisableDNSSeed = False,
       ExternalIPs = [],
       Proxy = [],
       ProxyUser = [],
       ProxyPass = [],
       OnionProxy = [],
       OnionProxyUser = [],
       OnionProxyPass = [],
       NoOnion = False,
       TestNet3 = False,
       RegressionTest = False,
       SimNet = False,
       DisableCheckpoints = False,
       DbType = defaultDbType,
       Profile = [],
       CpuProfile = [],
       DebugLevel = defaultLogLevel,
       Upnp = False,
       FreeTxRelayLimit = defaultFreeTxRelayLimit,
       BlockMinSize = defaultBlockMinSize,
       BlockMaxSize = defaultBlockMaxSize,
       BlockPrioritySize = defaultBlockPrioritySize,
       GetWorkKeys = [],
       onionlookup = None,
       lookup = None,
       oniondial = None,
       dial = None,
       miningKeys = [] \<rparr>"

text \<open>The pre-parse of the command line (lines 326-328); its errors are ignored.\<close>

definition prePass :: "env \<Rightarrow> config \<times> string" where
  "prePass e = fst (ParseArgs e FlagsNone (defaultConfig e, []))"

text \<open>The service command, run only where \<^verbatim>\<open>runServiceCommand\<close> is set (lines 341-347).\<close>

definition serviceExit :: "env \<Rightarrow> string \<Rightarrow> stop option" where
  "serviceExit e serviceCommand =
     (case runServiceCommand e of
        None \<Rightarrow> None
      | Some run \<Rightarrow>
          if serviceCommand \<noteq> [] then Some (Exit (RanServiceCommand (run serviceCommand)))
          else None)"

text \<open>
  The configuration file (lines 350-364). The first component lists the files handed to the
  INI parser, the second is the failure or the configuration with the deferred error.
\<close>

definition filePass ::
  "env \<Rightarrow> config \<Rightarrow> config \<times> string
     \<Rightarrow> string list \<times> (stop + (config \<times> string) \<times> path_error option)" where
  "filePass e preCfg st =
     (if \<not> (RegressionTest preCfg \<or> SimNet preCfg) \<or> ConfigFile preCfg \<noteq> defaultConfigFile e
      then (case ParseFile e (ConfigFile preCfg) st of
              (st', None) \<Rightarrow> ([ConfigFile preCfg], Inr (st', None))
            | (st', Some (PathError perr)) \<Rightarrow> ([ConfigFile preCfg], Inr (st', Some perr))
            | (st', Some (ParseFailure msg)) \<Rightarrow>
                ([ConfigFile preCfg], Inl (usageError (ConfigFileError msg))))
      else ([], Inr (st, None)))"

text \<open>Peers of the configuration file in regression test mode (lines 366-369).\<close>

definition dropFilePeers :: "config \<Rightarrow> config \<Rightarrow> config" where
  "dropFilePeers preCfg cfg =
     (if RegressionTest preCfg \<and> length (AddPeers cfg) > 0 then cfg\<lparr>AddPeers := []\<rparr> else cfg)"

text \<open>The final parse of the command line (lines 371-378).\<close>

definition finalPass :: "env \<Rightarrow> config \<times> string \<Rightarrow> stop + config \<times> string list" where
  "finalPass e st =
     (case ParseArgs e FlagsDefault st of
        ((cfg, _), remainingArgs, None) \<Rightarrow> Inr (cfg, remainingArgs)
      | (_, _, Some err) \<Rightarrow>
          Inl (Failed (ArgsError err) (if err \<noteq> ErrHelp then [WriteHelp] else [])))"

subsection \<open>The checks on the merged configuration (lines 380-577)\<close>

text \<open>Network selection (lines 380-410).\<close>

definition numNets :: "config \<Rightarrow> nat" where
  "numNets cfg =
     (if TestNet3 cfg then 1 else 0) + (if RegressionTest cfg then 1 else 0)
       + (if SimNet cfg then 1 else 0)"

definition selectNetwork :: "env \<Rightarrow> state \<Rightarrow> stop + state" where
  "selectNetwork e = (\<lambda>(cfg, active).
     if numNets cfg > 1 then Inl (usageError MultipleNetsError)
     else if TestNet3 cfg then Inr (cfg, testNet3Params e)
     else if RegressionTest cfg then Inr (cfg, regressionNetParams e)
     else if SimNet cfg then Inr (cfg\<lparr>DisableDNSSeed := True\<rparr>, simNetParams e)
     else Inr (cfg, active))"

text \<open>Data and log directories (lines 418-424).\<close>

definition namespaceDirs :: "env \<Rightarrow> state \<Rightarrow> stop + state" where
  "namespaceDirs e = (\<lambda>(cfg, active).
     Inr (cfg\<lparr>DataDir := Join e (cleanAndExpandPath e (DataDir cfg)) (netName e active),
              LogDir := Join e (cleanAndExpandPath e (LogDir cfg)) (netName e active)\<rparr>,
          active))"

text \<open>
  The debug level (lines 427-442). Setting up the logger and the levels (lines 433-434 and
  the calls made by \<^verbatim>\<open>parseAndSetDebugLevels\<close>) acts on the logging backend only and is
  not part of the result of \<^verbatim>\<open>loadConfig\<close>.
\<close>

definition showSubsystems :: "env \<Rightarrow> state \<Rightarrow> stop + state" where
  "showSubsystems e = (\<lambda>(cfg, active).
     if DebugLevel cfg = ''show''
     then Inl (Exit (ShowedSubsystems (supportedSubsystems (subsystemLoggers e))))
     else Inr (cfg, active))"

definition checkDebugLevel :: "env \<Rightarrow> state \<Rightarrow> stop + state" where
  "checkDebugLevel e = (\<lambda>(cfg, active).
     case snd (parseAndSetDebugLevels (subsystemLoggers e) (DebugLevel cfg)) of
       Some err \<Rightarrow> Inl (usageError (DebugLevelError err))
     | None \<Rightarrow> Inr (cfg, active))"

text \<open>Database type, profile port, ban duration, peer options (lines 444-483).\<close>

definition checkDbType :: "env \<Rightarrow> state \<Rightarrow> stop + state" where
  "checkDbType e = (\<lambda>(cfg, active).
     if \<not> validDbType (knownDbTypes e) (DbType cfg)
     then Inl (usageError (InvalidDbType (DbType cfg) (knownDbTypes e)))
     else Inr (cfg, active))"

definition checkProfile :: "env \<Rightarrow> state \<Rightarrow> stop + state" where
  "checkProfile e = (\<lambda>(cfg, active).
     if Profile cfg \<noteq> []
     then (case Atoi e (Profile cfg) of
             None \<Rightarrow> Inl (usageError InvalidProfilePort)
           | Some profilePort \<Rightarrow>
               if profilePort < 1024 \<or> profilePort > 65535
               then Inl (usageError InvalidProfilePort)
               else Inr (cfg, active))
     else Inr (cfg, active))"

definition checkBanDuration :: "state \<Rightarrow> stop + state" where
  "checkBanDuration = (\<lambda>(cfg, active).
     if BanDuration cfg < second
     then Inl (usageError (BanDurationTooShort (BanDuration cfg)))
     else Inr (cfg, active))"

definition checkPeerOptions :: "state \<Rightarrow> stop + state" where
  "checkPeerOptions = (\<lambda>(cfg, active).
     if length (AddPeers cfg) > 0 \<and> length (ConnectPeers cfg) > 0
     then Inl (usageError AddPeerConnectMixed)
     else Inr (cfg, active))"

text \<open>Listening, DNS seeding and the default listener (lines 485-503).\<close>

definition listenDefaults :: "state \<Rightarrow> stop + state" where
  "listenDefaults = (\<lambda>(cfg, active).
     let cfg = (if (Proxy cfg \<noteq> [] \<or> length (ConnectPeers cfg) > 0)
                   \<and> length (Listeners cfg) = 0
                then cfg\<lparr>DisableListen := True\<rparr> else cfg);
         cfg = (if length (ConnectPeers cfg) > 0 then cfg\<lparr>DisableDNSSeed := True\<rparr> else cfg);
         cfg = (if length (Listeners cfg) = 0
                then cfg\<lparr>Listeners := [JoinHostPort [] (DefaultPort active)]\<rparr> else cfg)
     in Inr (cfg, active))"

text \<open>The RPC server (lines 505-522).\<close>

definition rpcDefaults :: "env \<Rightarrow> state \<Rightarrow> stop + state" where
  "rpcDefaults e = (\<lambda>(cfg, active).
     let cfg = (if RPCUser cfg = [] \<or> RPCPass cfg = []
                then cfg\<lparr>DisableRPC := True\<rparr> else cfg)
     in if \<not> DisableRPC cfg \<and> length (RPCListeners cfg) = 0
        then (case LookupHost e ''localhost'' of
                Inl err \<Rightarrow> Inl (Failed (LookupHostError err) [])
              | Inr addrs \<Rightarrow>
                  Inr (cfg\<lparr>RPCListeners :=
                             map (\<lambda>addr. JoinHostPort addr (rpcPort active)) addrs\<rparr>,
                       active))
        else Inr (cfg, active))"

text \<open>The block sizes (lines 524-539).\<close>

definition limitBlockSizes :: "env \<Rightarrow> state \<Rightarrow> stop + state" where
  "limitBlockSizes e = (\<lambda>(cfg, active).
     if uint (BlockMaxSize cfg) < blockMaxSizeMin \<or> uint (BlockMaxSize cfg) > blockMaxSizeMax e
     then Inl (usageError
                 (BlockMaxSizeOutOfRange blockMaxSizeMin (blockMaxSizeMax e) (BlockMaxSize cfg)))
     else
       (let cfg = cfg\<lparr>BlockPrioritySize :=
                        minUint32 (BlockPrioritySize cfg) (BlockMaxSize cfg)\<rparr>;
            cfg = cfg\<lparr>BlockMinSize := minUint32 (BlockMinSize cfg) (BlockMaxSize cfg)\<rparr>
        in Inr (cfg, active)))"

text \<open>The payment addresses (lines 541-560).\<close>

fun decodeMiningKeys ::
  "env \<Rightarrow> params \<Rightarrow> address list \<Rightarrow> string list \<Rightarrow> load_error + address list" where
  "decodeMiningKeys e active keys [] = Inr keys"
| "decodeMiningKeys e active keys (strAddr # strAddrs) =
     (case DecodeAddress e strAddr active of
        Inl err \<Rightarrow> Inl (GetWorkKeyDecodeError strAddr err)
      | Inr addr \<Rightarrow>
          if \<not> IsForNet e addr active then Inl (GetWorkKeyWrongNet strAddr)
          else decodeMiningKeys e active (keys @ [addr]) strAddrs)"

definition checkMiningKeys :: "env \<Rightarrow> state \<Rightarrow> stop + state" where
  "checkMiningKeys e = (\<lambda>(cfg, active).
     case decodeMiningKeys e active [] (GetWorkKeys cfg) of
       Inl err \<Rightarrow> Inl (usageError err)
     | Inr keys \<Rightarrow> Inr (cfg\<lparr>miningKeys := keys\<rparr>, active))"

text \<open>The four address lists (lines 562-577).\<close>

definition normalizeLists :: "state \<Rightarrow> stop + state" where
  "normalizeLists = (\<lambda>(cfg, active).
     let cfg = cfg\<lparr>Listeners := normalizeAddresses (Listeners cfg) (DefaultPort active)\<rparr>;
         cfg = cfg\<lparr>RPCListeners := normalizeAddresses (RPCListeners cfg) (rpcPort active)\<rparr>;
         cfg = cfg\<lparr>AddPeers := normalizeAddresses (AddPeers cfg) (DefaultPort active)\<rparr>;
         cfg = cfg\<lparr>ConnectPeers := normalizeAddresses (ConnectPeers cfg) (DefaultPort active)\<rparr>
     in Inr (cfg, active))"

subsection \<open>Dial and lookup functions (lines 579-635)\<close>

definition setupDial :: "config \<Rightarrow> config" where
  "setupDial cfg =
     (let cfg = cfg\<lparr>dial := Some NetDial\<rparr>;
          cfg = cfg\<lparr>lookup := Some NetLookupIP\<rparr>
      in if Proxy cfg \<noteq> []
         then (let cfg = cfg\<lparr>dial := Some (SocksDial (Proxy cfg) (ProxyUser cfg) (ProxyPass cfg))\<rparr>
               in if \<not> NoOnion cfg then cfg\<lparr>lookup := Some TorLookupProxy\<rparr> else cfg)
         else cfg)"

definition setupOnion :: "config \<Rightarrow> config" where
  "setupOnion cfg =
     (let cfg = (if OnionProxy cfg \<noteq> []
                 then cfg\<lparr>oniondial := Some OnionSocksDial, onionlookup := Some TorLookupOnion\<rparr>
                 else cfg\<lparr>oniondial := dial cfg, onionlookup := lookup cfg\<rparr>)
      in if NoOnion cfg
         then cfg\<lparr>oniondial := Some TorDisabledDial, onionlookup := Some TorDisabledLookup\<rparr>
         else cfg)"

definition setupStrategies :: "state \<Rightarrow> stop + state" where
  "setupStrategies = (\<lambda>(cfg, active). Inr (setupOnion (setupDial cfg), active))"

subsection \<open>loadConfig (lines 293-645)\<close>

definition validate :: "env \<Rightarrow> state \<Rightarrow> stop + state" where
  "validate e =
     runSteps [selectNetwork e, namespaceDirs e, showSubsystems e, checkDebugLevel e,
       checkDbType e, checkProfile e, checkBanDuration, checkPeerOptions, listenDefaults,
       rpcDefaults e, limitBlockSizes e, checkMiningKeys e, normalizeLists, setupStrategies]"

text \<open>
  The sources (lines 293-378): the home directory, the pre-parse with its two early exits,
  the configuration file, the peers of the file, the final parse. The first component of
  the result lists the configuration files that were handed to the INI parser; the second
  is the end of the run, or the merged configuration with the remaining arguments and the
  deferred error of the configuration file.
\<close>

definition mergeAfterFile ::
  "env \<Rightarrow> config \<Rightarrow> (config \<times> string) \<times> path_error option
     \<Rightarrow> stop + config \<times> string list \<times> path_error option" where
  "mergeAfterFile e preCfg = (\<lambda>((cfg, serviceCommand), configFileError).
     case finalPass e (dropFilePeers preCfg cfg, serviceCommand) of
       Inl out \<Rightarrow> Inl out
     | Inr (cfg, remainingArgs) \<Rightarrow> Inr (cfg, remainingArgs, configFileError))"

definition mergeSources ::
  "env \<Rightarrow> string list \<times> (stop + config \<times> string list \<times> path_error option)" where
  "mergeSources e =
     (case MkdirAll e (btcdHomeDir e) of
        Some err \<Rightarrow> ([], Inl (Failed (MkdirError err) [LogError (MkdirError err)]))
      | None \<Rightarrow>
          (case prePass e of (preCfg, serviceCommand) \<Rightarrow>
             if ShowVersion preCfg then ([], Inl (Exit ShowedVersion))
             else (case serviceExit e serviceCommand of
                     Some out \<Rightarrow> ([], Inl out)
                   | None \<Rightarrow>
                       (case filePass e preCfg (defaultConfig e, serviceCommand) of
                          (reads, Inl out) \<Rightarrow> (reads, Inl out)
                        | (reads, Inr fromFile) \<Rightarrow>
                            (reads, mergeAfterFile e preCfg fromFile)))))"

text \<open>
  From the merged configuration to the end (lines 380-645): the checks, and on success
  the configuration, the remaining arguments and the warning.
\<close>

definition checkAndFinish ::
  "env \<Rightarrow> config \<times> string list \<times> path_error option \<Rightarrow> outcome" where
  "checkAndFinish e = (\<lambda>(cfg, remainingArgs, configFileError).
     case validate e (cfg, activeNetParams0 e) of
       Inl out \<Rightarrow> Stopped out
     | Inr (cfg, active) \<Rightarrow> Loaded cfg remainingArgs active configFileError)"

definition loadConfig :: "env \<Rightarrow> string list \<times> outcome" where
  "loadConfig e =
     (case mergeSources e of
        (reads, Inl out) \<Rightarrow> (reads, Stopped out)
      | (reads, Inr merged) \<Rightarrow> (reads, checkAndFinish e merged))"

text \<open>An outcome with the deferred error of the configuration file replaced.\<close>

fun withWarning :: "path_error option \<Rightarrow> outcome \<Rightarrow> outcome" where
  "withWarning w (Loaded cfg remainingArgs active _) = Loaded cfg remainingArgs active w"
| "withWarning w (Stopped out) = Stopped out"

subsection \<open>btcdDial and btcdLookup (lines 647-671)\<close>

text \<open>
  What a call of a stored function does: the call it makes to a collaborator, the error it
  returns, or the panic of calling \<^verbatim>\<open>nil\<close>.
\<close>

datatype dial_action =
    NetDialCall string string
  | SocksDialCall string string string string string
  | DialError string
  | DialNilPanic

datatype lookup_action =
    NetLookupIPCall string
  | TorLookupIPCall string string
  | LookupError string
  | LookupNilPanic

fun runDial :: "config \<Rightarrow> dial_strategy option \<Rightarrow> string \<Rightarrow> string \<Rightarrow> dial_action" where
  "runDial cfg None network addr = DialNilPanic"
| "runDial cfg (Some NetDial) network addr = NetDialCall network addr"
| "runDial cfg (Some (SocksDial proxyAddr user pass)) network addr =
     SocksDialCall proxyAddr user pass network addr"
| "runDial cfg (Some OnionSocksDial) network addr =
     SocksDialCall (OnionProxy cfg) (OnionProxyUser cfg) (OnionProxyPass cfg) network addr"
| "runDial cfg (Some TorDisabledDial) network addr = DialError ''tor has been disabled''"

fun runLookup :: "config \<Rightarrow> lookup_strategy option \<Rightarrow> string \<Rightarrow> lookup_action" where
  "runLookup cfg None host = LookupNilPanic"
| "runLookup cfg (Some NetLookupIP) host = NetLookupIPCall host"
| "runLookup cfg (Some TorLookupProxy) host = TorLookupIPCall host (Proxy cfg)"
| "runLookup cfg (Some TorLookupOnion) host = TorLookupIPCall host (OnionProxy cfg)"
| "runLookup cfg (Some TorDisabledLookup) host = LookupError ''tor has been disabled''"

definition btcdDial :: "config \<Rightarrow> string \<Rightarrow> string \<Rightarrow> dial_action" where
  "btcdDial cfg network addr =
     (if HasSuffix addr ''.onion'' then runDial cfg (oniondial cfg) network addr
      else runDial cfg (dial cfg) network addr)"

definition btcdLookup :: "config \<Rightarrow> string \<Rightarrow> lookup_action" where
  "btcdLookup cfg host =
     (if HasSuffix host ''.onion'' then runLookup cfg (onionlookup cfg) host
      else runLookup cfg (lookup cfg) host)"

subsection \<open>An environment for concrete runs\<close>

text \<open>
  A small concrete environment on which the definitions can be evaluated: the command line
  and the configuration file are given by their effect on the configuration, the home
  directory exists, paths are joined with a slash and \<^verbatim>\<open>localhost\<close> resolves to one
  address.
\<close>

definition exampleEnv ::
  "(config \<Rightarrow> config) \<Rightarrow> (config \<Rightarrow> config \<times> file_error option) \<Rightarrow> env" where
  "exampleEnv cli file =
     \<lparr> MaxBlockPayload = 1000000,
       btcdHomeDir = ''/home/u/.btcd'',
       defaultConfigFile = ''/home/u/.btcd/btcd.conf'',
       defaultDataDir = ''/home/u/.btcd/data'',
       defaultRPCKeyFile = ''/home/u/.btcd/rpc.key'',
       defaultRPCCertFile = ''/home/u/.btcd/rpc.cert'',
       defaultLogDir = ''/home/u/.btcd/logs'',
       knownDbTypes = [''leveldb'', ''memdb''],
       subsystemLoggers = [''PEER'', ''BTCD'', ''AMGR''],
       mainNetParams = \<lparr>Name = ''mainnet'', DefaultPort = ''8333'', rpcPort = ''8334''\<rparr>,
       testNet3Params = \<lparr>Name = ''testnet3'', DefaultPort = ''18333'', rpcPort = ''18334''\<rparr>,
       regressionNetParams = \<lparr>Name = ''regtest'', DefaultPort = ''18444'', rpcPort = ''18334''\<rparr>,
       simNetParams = \<lparr>Name = ''simnet'', DefaultPort = ''18555'', rpcPort = ''18556''\<rparr>,
       netName = Name,
       runServiceCommand = None,
       MkdirAll = (\<lambda>path. None),
       ParseArgs = (\<lambda>options (cfg, serviceCommand). ((cli cfg, serviceCommand), [], None)),
       ParseFile = (\<lambda>path (cfg, serviceCommand).
                      ((fst (file cfg), serviceCommand), snd (file cfg))),
       ExpandEnv = (\<lambda>path. path),
       Clean = (\<lambda>path. path),
       Dir = (\<lambda>path. ''/home/u''),
       Join = (\<lambda>dir name. dir @ ''/'' @ name),
       Atoi = (\<lambda>s. None),
       LookupHost = (\<lambda>host. Inr [''127.0.0.1'']),
       DecodeAddress = (\<lambda>strAddr active. Inr (Address strAddr)),
       IsForNet = (\<lambda>addr active. True) \<rparr>"

subsection \<open>Accepted subsystem/level pairs\<close>

text \<open>
  What one pass of the loop of \<^verbatim>\<open>parseAndSetDebugLevels\<close> accepts: the first two pieces
  of the pair split at \<^verbatim>\<open>=\<close> are a known subsystem and a valid level.
\<close>

definition validPair :: "string list \<Rightarrow> string \<Rightarrow> bool" where
  "validPair subs p =
     (case Split p CHR ''='' of
        subsysID # logLevel # _ \<Rightarrow> subsysID \<in> set subs \<and> validLogLevel logLevel
      | _ \<Rightarrow> False)"

subsection \<open>What the checks leave unchanged\<close>

text \<open>
  The fields that no check writes, and the relation between the states before and after a
  check that writes neither these nor the block sizes nor the active network, and does not
  enable the RPC server.
\<close>

definition sameInputs :: "config \<Rightarrow> config \<Rightarrow> bool" where
  "sameInputs c c' =
     (Proxy c' = Proxy c \<and> ProxyUser c' = ProxyUser c \<and> ProxyPass c' = ProxyPass c
      \<and> OnionProxy c' = OnionProxy c \<and> OnionProxyUser c' = OnionProxyUser c
      \<and> OnionProxyPass c' = OnionProxyPass c \<and> NoOnion c' = NoOnion c
      \<and> RPCUser c' = RPCUser c \<and> RPCPass c' = RPCPass c
      \<and> BlockMaxSize c' = BlockMaxSize c
      \<and> TestNet3 c' = TestNet3 c \<and> RegressionTest c' = RegressionTest c \<and> SimNet c' = SimNet c)"

definition frame :: "state \<Rightarrow> state \<Rightarrow> bool" where
  "frame s s' =
     (snd s' = snd s \<and> sameInputs (fst s) (fst s')
      \<and> BlockMinSize (fst s') = BlockMinSize (fst s)
      \<and> BlockPrioritySize (fst s') = BlockPrioritySize (fst s)
      \<and> (DisableRPC (fst s) \<longrightarrow> DisableRPC (fst s')))"

subsection \<open>Concrete runs\<close>

text \<open>The configuration that a run returns, and a run with a small priority size.\<close>

fun theConfig :: "outcome \<Rightarrow> config option" where
  "theConfig (Loaded cfg remainingArgs active w) = Some cfg"
| "theConfig (Stopped out) = None"

definition sizesRun :: env where
  "sizesRun =
     exampleEnv (\<lambda>c. c\<lparr>BlockMinSize := 5000, BlockPrioritySize := 1000\<rparr>) (\<lambda>c. (c, None))"

text \<open>
  A run in regression test mode with a configuration file of its own that names an
  add-peer and a connect-only peer; the command line names no peer.
\<close>

definition regtestFileRun :: env where
  "regtestFileRun =
     exampleEnv (\<lambda>c. c\<lparr>RegressionTest := True, ConfigFile := ''/etc/btcd.conf''\<rparr>)
       (\<lambda>c. (c\<lparr>AddPeers := [''5.6.7.8''], ConnectPeers := [''1.2.3.4'']\<rparr>, None))"

section \<open>Dispatch on the onion suffix\<close>

lemma HasSuffix_suffix: "HasSuffix s suf = suffix suf s"
proof
  assume h: "HasSuffix s suf"
  then have "s = take (length s - length suf) s @ suf"
    by (metis HasSuffix_def append_take_drop_id)
  then show "suffix suf s" by (metis suffixI)
next
  assume "suffix suf s"
  then obtain zs where "s = zs @ suf" by (auto simp: suffix_def)
  then show "HasSuffix s suf" by (simp add: HasSuffix_def)
qed

text \<open>
  C6: \<^verbatim>\<open>btcdDial\<close> calls the onion dial function exactly when the address ends in
  \<^verbatim>\<open>.onion\<close> and the normal dial function otherwise, and \<^verbatim>\<open>btcdLookup\<close> does the same
  with the two lookup functions and the host name.
\<close>

theorem btcdDial_dispatch:
  "btcdDial cfg network addr =
     (if suffix ''.onion'' addr then runDial cfg (oniondial cfg) network addr
      else runDial cfg (dial cfg) network addr)
   \<and> btcdLookup cfg host =
     (if suffix ''.onion'' host then runLookup cfg (onionlookup cfg) host
      else runLookup cfg (lookup cfg) host)"
  by (simp add: btcdDial_def btcdLookup_def HasSuffix_suffix)

section \<open>Address lists\<close>





















section \<open>Debug levels\<close>


lemma Contains_char: "Contains s [c] = (c \<in> set s)"
  by (induction s) (auto simp: HasPrefix_def)

lemma Split_nonempty: "Split s c \<noteq> []"
  by (induction s) (auto split: list.splits)

lemma Split_two: "c \<in> set s \<Longrightarrow> \<exists>a b rest. Split s c = a # b # rest"
proof (induction s)
  case Nil
  then show ?case by simp
next
  case (Cons x xs)
  show ?case
  proof (cases "x = c")
    case True
    then show ?thesis using Split_nonempty [of xs c] by (cases "Split xs c") auto
  next
    case False
    with Cons obtain a b rest where "Split xs c = a # b # rest" by auto
    with False show ?thesis by simp
  qed
qed

lemma setLevelPairs_success:
  "(snd (setLevelPairs subs pairs) = None) = list_all (validPair subs) pairs"
proof (induction pairs)
  case Nil
  then show ?case by simp
next
  case (Cons p ps)
  show ?case
  proof (cases "CHR ''='' \<in> set p")
    case False
    then have "length (Split p CHR ''='') = 1" 
      by (induction p) (auto split: list.splits)
    then have "\<not> validPair subs p"
      by (auto simp: validPair_def split: list.splits)
    with False show ?thesis by (simp add: Contains_char)
  next
    case True
    then obtain a b rest where s: "Split p CHR ''='' = a # b # rest"
      using Split_two by blast
    with True Cons show ?thesis
      by (auto simp: Contains_char validPair_def split: prod.splits)
  qed
qed

lemma setLevelPairs_no_panic: "snd (setLevelPairs subs pairs) \<noteq> Some IndexOutOfRange"
proof (induction pairs)
  case Nil
  then show ?case by simp
next
  case (Cons p ps)
  show ?case
  proof (cases "CHR ''='' \<in> set p")
    case False
    then show ?thesis by (simp add: Contains_char)
  next
    case True
    then obtain a b rest where s: "Split p CHR ''='' = a # b # rest"
      using Split_two by blast
    with True Cons show ?thesis
      by (auto simp: Contains_char split: prod.splits)
  qed
qed

lemma setLevelPairs_subsystems:
  "snd (setLevelPairs subs pairs) = Some (InvalidSubsystem x names)
     \<Longrightarrow> names = supportedSubsystems subs \<and> x \<notin> set subs"
proof (induction pairs)
  case Nil
  then show ?case by simp
next
  case (Cons p ps)
  show ?case
  proof (cases "CHR ''='' \<in> set p")
    case False
    with Cons.prems show ?thesis by (simp add: Contains_char)
  next
    case True
    then obtain a b rest where s: "Split p CHR ''='' = a # b # rest"
      using Split_two by blast
    with True Cons show ?thesis
      by (auto simp: Contains_char split: prod.splits if_splits)
  qed
qed

lemma supportedSubsystems_sorted:
  "sorted (supportedSubsystems subs) \<and> set (supportedSubsystems subs) = set subs"
  by (simp add: supportedSubsystems_def)

lemma parseAndSetDebugLevels_success:
  "(snd (parseAndSetDebugLevels subs s) = None) =
     (if CHR '','' \<notin> set s \<and> CHR ''='' \<notin> set s then validLogLevel s
      else list_all (validPair subs) (Split s CHR '',''))"
  by (simp add: parseAndSetDebugLevels_def Contains_char setLevelPairs_success)

text \<open>
  C8 fails on the code: with \<^verbatim>\<open>PEER\<close> a logging subsystem, the debug level
  \<^verbatim>\<open>PEER=debug=junk\<close> is accepted and sets \<^verbatim>\<open>PEER\<close> to \<^verbatim>\<open>debug\<close>, although it is no
  subsystem=level pair: \<^verbatim>\<open>debug=junk\<close> is no level and \<^verbatim>\<open>PEER=debug\<close> no subsystem.
  The pair is split at every \<^verbatim>\<open>=\<close> and only the first two pieces are read.
\<close>

theorem debug_level_extra_field:
  "parseAndSetDebugLevels [''PEER'', ''BTCD'', ''AMGR''] ''PEER=debug=junk''
     = ([SetLogLevel ''PEER'' ''debug''], None)
   \<and> \<not> validLogLevel ''debug=junk''
   \<and> ''PEER=debug'' \<notin> set [''PEER'', ''BTCD'', ''AMGR'']"
  by (simp add: parseAndSetDebugLevels_def HasPrefix_def validLogLevel.simps)


section \<open>The checks, step by step\<close>


lemmas step_defs = selectNetwork_def namespaceDirs_def showSubsystems_def checkDebugLevel_def
  checkDbType_def checkProfile_def checkBanDuration_def checkPeerOptions_def listenDefaults_def
  rpcDefaults_def limitBlockSizes_def checkMiningKeys_def normalizeLists_def
  setupStrategies_def setupDial_def setupOnion_def

lemmas source_defs = loadConfig_def mergeSources_def mergeAfterFile_def checkAndFinish_def
  prePass_def serviceExit_def filePass_def dropFilePeers_def finalPass_def validate_def
  defaultConfig_def activeNetParams0_def

lemmas const_defs = defaultLogLevel_def defaultMaxPeers_def second_def defaultBanDuration_def
  defaultMaxRPCClients_def defaultMaxRPCWebsockets_def defaultDbType_def
  defaultFreeTxRelayLimit_def defaultBlockMinSize_def defaultBlockMaxSize_def
  blockMaxSizeMin_def blockMaxSizeMax_def defaultBlockPrioritySize_def minUint32_def
  numNets_def usageError_def cleanAndExpandPath_def

lemmas addr_defs = normalizeAddresses_def normalizeAddress_def SplitHostPort_def
  LastIndexByte_def JoinHostPort_def removeDuplicateAddresses_def bracketChecks_def


lemma runSteps_Cons_Inr:
  "(runSteps (f # fs) s = Inr t) = (\<exists>s'. f s = Inr s' \<and> runSteps fs s' = Inr t)"
  by (cases "f s") auto

lemma runSteps_Nil_Inr: "(runSteps [] s = Inr t) = (s = t)"
  by auto

lemma runSteps_never:
  "(\<And>f s. f \<in> set steps \<Longrightarrow> f s \<noteq> Inl out) \<Longrightarrow> runSteps steps s \<noteq> Inl out"
proof (induction steps arbitrary: s)
  case Nil
  then show ?case by simp
next
  case (Cons f fs)
  show ?case
  proof (cases "f s")
    case (Inl a)
    with Cons.prems [of f s] show ?thesis by simp
  next
    case (Inr s')
    with Cons show ?thesis by simp
  qed
qed

lemma frame_refl: "frame s s"
  by (simp add: frame_def sameInputs_def)

lemma frame_trans: "frame a b \<Longrightarrow> frame b c \<Longrightarrow> frame a c"
  by (simp add: frame_def sameInputs_def)

lemma frame_namespaceDirs: "namespaceDirs e s = Inr s' \<Longrightarrow> frame s s'"
  by (auto simp: namespaceDirs_def frame_def sameInputs_def split: prod.splits)

lemma frame_showSubsystems: "showSubsystems e s = Inr s' \<Longrightarrow> frame s s'"
  by (auto simp: showSubsystems_def frame_def sameInputs_def split: prod.splits if_splits)

lemma frame_checkDebugLevel: "checkDebugLevel e s = Inr s' \<Longrightarrow> frame s s'"
  by (auto simp: checkDebugLevel_def frame_def sameInputs_def split: prod.splits option.splits)

lemma frame_checkDbType: "checkDbType e s = Inr s' \<Longrightarrow> frame s s'"
  by (auto simp: checkDbType_def frame_def sameInputs_def split: prod.splits if_splits)

lemma frame_checkProfile: "checkProfile e s = Inr s' \<Longrightarrow> frame s s'"
  by (auto simp: checkProfile_def frame_def sameInputs_def
      split: prod.splits if_splits option.splits)

lemma frame_checkBanDuration: "checkBanDuration s = Inr s' \<Longrightarrow> frame s s'"
  by (auto simp: checkBanDuration_def frame_def sameInputs_def split: prod.splits if_splits)

lemma frame_checkPeerOptions: "checkPeerOptions s = Inr s' \<Longrightarrow> frame s s'"
  by (auto simp: checkPeerOptions_def frame_def sameInputs_def split: prod.splits if_splits)

lemma listenDefaults_eq:
  "listenDefaults (c, a) =
     Inr (c\<lparr>DisableListen :=
               (if (Proxy c \<noteq> [] \<or> ConnectPeers c \<noteq> []) \<and> Listeners c = [] then True
                else DisableListen c),
            DisableDNSSeed := (if ConnectPeers c \<noteq> [] then True else DisableDNSSeed c),
            Listeners := (if Listeners c = [] then [JoinHostPort [] (DefaultPort a)]
                          else Listeners c)\<rparr>, a)"
  by (simp add: listenDefaults_def Let_def)

lemma frame_listenDefaults: "listenDefaults s = Inr s' \<Longrightarrow> frame s s'"
  by (cases s) (auto simp: listenDefaults_eq frame_def sameInputs_def)

lemma rpcDefaults_eq:
  "rpcDefaults e (c, a) =
     (if RPCUser c \<noteq> [] \<and> RPCPass c \<noteq> [] \<and> \<not> DisableRPC c \<and> RPCListeners c = []
      then (case LookupHost e ''localhost'' of
              Inl err \<Rightarrow> Inl (Failed (LookupHostError err) [])
            | Inr addrs \<Rightarrow>
                Inr (c\<lparr>RPCListeners := map (\<lambda>addr. JoinHostPort addr (rpcPort a)) addrs\<rparr>, a))
      else Inr (c\<lparr>DisableRPC := (if RPCUser c = [] \<or> RPCPass c = [] then True
                                   else DisableRPC c)\<rparr>, a))"
  by (simp add: rpcDefaults_def Let_def)

lemma frame_rpcDefaults: "rpcDefaults e s = Inr s' \<Longrightarrow> frame s s'"
  by (cases s) (auto simp: rpcDefaults_eq frame_def sameInputs_def split: if_splits sum.splits)

lemma frame_checkMiningKeys: "checkMiningKeys e s = Inr s' \<Longrightarrow> frame s s'"
  by (auto simp: checkMiningKeys_def frame_def sameInputs_def split: prod.splits sum.splits)

lemma normalizeLists_eq:
  "normalizeLists (c, a) =
     Inr (c\<lparr>Listeners := normalizeAddresses (Listeners c) (DefaultPort a),
            RPCListeners := normalizeAddresses (RPCListeners c) (rpcPort a),
            AddPeers := normalizeAddresses (AddPeers c) (DefaultPort a),
            ConnectPeers := normalizeAddresses (ConnectPeers c) (DefaultPort a)\<rparr>, a)"
  by (simp add: normalizeLists_def Let_def)

lemma frame_normalizeLists: "normalizeLists s = Inr s' \<Longrightarrow> frame s s'"
  by (cases s) (auto simp: normalizeLists_eq frame_def sameInputs_def)

lemma setupDial_eq:
  "setupDial c =
     c\<lparr>dial := Some (if Proxy c = [] then NetDial
                      else SocksDial (Proxy c) (ProxyUser c) (ProxyPass c)),
       lookup := Some (if Proxy c \<noteq> [] \<and> \<not> NoOnion c then TorLookupProxy else NetLookupIP)\<rparr>"
  by (simp add: setupDial_def Let_def)

lemma setupOnion_eq:
  "setupOnion c =
     c\<lparr>oniondial := (if NoOnion c then Some TorDisabledDial
                     else if OnionProxy c \<noteq> [] then Some OnionSocksDial else dial c),
       onionlookup := (if NoOnion c then Some TorDisabledLookup
                       else if OnionProxy c \<noteq> [] then Some TorLookupOnion else lookup c)\<rparr>"
  by (simp add: setupOnion_def Let_def)

lemma frame_setupStrategies: "setupStrategies s = Inr s' \<Longrightarrow> frame s s'"
  by (auto simp: setupStrategies_def setupDial_eq setupOnion_eq frame_def sameInputs_def
      split: prod.splits)

lemma rpcDefaults_disables:
  "rpcDefaults e s = Inr s' \<Longrightarrow> RPCUser (fst s) = [] \<or> RPCPass (fst s) = []
     \<Longrightarrow> DisableRPC (fst s')"
  by (cases s) (auto simp: rpcDefaults_eq split: if_splits sum.splits)

lemma selectNetwork_Inr:
  "selectNetwork e (c, a) = Inr s' \<Longrightarrow>
     numNets c \<le> 1 \<and> sameInputs c (fst s')
     \<and> BlockMinSize (fst s') = BlockMinSize c
     \<and> BlockPrioritySize (fst s') = BlockPrioritySize c
     \<and> snd s' = (if TestNet3 c then testNet3Params e
                  else if RegressionTest c then regressionNetParams e
                  else if SimNet c then simNetParams e else a)"
  by (auto simp: selectNetwork_def sameInputs_def split: if_splits)

lemma limitBlockSizes_eq:
  "limitBlockSizes e (c, a) =
     (if uint (BlockMaxSize c) < blockMaxSizeMin \<or> uint (BlockMaxSize c) > blockMaxSizeMax e
      then Inl (usageError
                 (BlockMaxSizeOutOfRange blockMaxSizeMin (blockMaxSizeMax e) (BlockMaxSize c)))
      else Inr (c\<lparr>BlockPrioritySize := minUint32 (BlockPrioritySize c) (BlockMaxSize c),
                  BlockMinSize := minUint32 (BlockMinSize c) (BlockMaxSize c)\<rparr>, a))"
  by (simp add: limitBlockSizes_def Let_def)

lemma limitBlockSizes_Inr:
  "limitBlockSizes e s = Inr s' \<Longrightarrow>
     snd s' = snd s \<and> sameInputs (fst s) (fst s')
     \<and> (DisableRPC (fst s) \<longrightarrow> DisableRPC (fst s'))
     \<and> blockMaxSizeMin \<le> uint (BlockMaxSize (fst s))
     \<and> uint (BlockMaxSize (fst s)) \<le> blockMaxSizeMax e
     \<and> BlockMinSize (fst s') = minUint32 (BlockMinSize (fst s)) (BlockMaxSize (fst s))
     \<and> BlockPrioritySize (fst s')
         = minUint32 (BlockPrioritySize (fst s)) (BlockMaxSize (fst s))"
  by (cases s) (auto simp: limitBlockSizes_eq sameInputs_def split: if_splits)

lemma validate_Inr:
  assumes "validate e (c, a) = Inr (c', a')"
  shows "numNets c \<le> 1"
    and "sameInputs c c'"
    and "a' = (if TestNet3 c then testNet3Params e
               else if RegressionTest c then regressionNetParams e
               else if SimNet c then simNetParams e else a)"
    and "blockMaxSizeMin \<le> uint (BlockMaxSize c)"
    and "uint (BlockMaxSize c) \<le> blockMaxSizeMax e"
    and "BlockMinSize c' = minUint32 (BlockMinSize c) (BlockMaxSize c)"
    and "BlockPrioritySize c' = minUint32 (BlockPrioritySize c) (BlockMaxSize c)"
    and "RPCUser c = [] \<or> RPCPass c = [] \<Longrightarrow> DisableRPC c'"
    and "\<exists>c0. c' = setupOnion (setupDial c0)"
proof -
  from assms
  have "\<exists>s1 s2 s3 s4 s5 s6 s7 s8 s9 s10 s11 s12 s13.
      selectNetwork e (c, a) = Inr s1 \<and> namespaceDirs e s1 = Inr s2
      \<and> showSubsystems e s2 = Inr s3 \<and> checkDebugLevel e s3 = Inr s4
      \<and> checkDbType e s4 = Inr s5 \<and> checkProfile e s5 = Inr s6
      \<and> checkBanDuration s6 = Inr s7 \<and> checkPeerOptions s7 = Inr s8
      \<and> listenDefaults s8 = Inr s9 \<and> rpcDefaults e s9 = Inr s10
      \<and> limitBlockSizes e s10 = Inr s11 \<and> checkMiningKeys e s11 = Inr s12
      \<and> normalizeLists s12 = Inr s13 \<and> setupStrategies s13 = Inr (c', a')"
    unfolding validate_def runSteps_Cons_Inr runSteps_Nil_Inr
    apply clarify
    apply (intro exI conjI)
                 apply assumption+
    done
  then obtain s1 s2 s3 s4 s5 s6 s7 s8 s9 s10 s11 s12 s13 where
    st: "selectNetwork e (c, a) = Inr s1" "namespaceDirs e s1 = Inr s2"
      "showSubsystems e s2 = Inr s3" "checkDebugLevel e s3 = Inr s4"
      "checkDbType e s4 = Inr s5" "checkProfile e s5 = Inr s6"
      "checkBanDuration s6 = Inr s7" "checkPeerOptions s7 = Inr s8"
      "listenDefaults s8 = Inr s9" "rpcDefaults e s9 = Inr s10"
      "limitBlockSizes e s10 = Inr s11" "checkMiningKeys e s11 = Inr s12"
      "normalizeLists s12 = Inr s13" "setupStrategies s13 = Inr (c', a')"
    by (elim exE conjE)
  note sel = selectNetwork_Inr [OF st(1)]
  note [trans] = frame_trans
  have "frame s1 s2" using st(2) by (rule frame_namespaceDirs)
  also have "frame s2 s3" using st(3) by (rule frame_showSubsystems)
  also have "frame s3 s4" using st(4) by (rule frame_checkDebugLevel)
  also have "frame s4 s5" using st(5) by (rule frame_checkDbType)
  also have "frame s5 s6" using st(6) by (rule frame_checkProfile)
  also have "frame s6 s7" using st(7) by (rule frame_checkBanDuration)
  also have "frame s7 s8" using st(8) by (rule frame_checkPeerOptions)
  also have "frame s8 s9" using st(9) by (rule frame_listenDefaults)
  finally have f19: "frame s1 s9" .
  have f910: "frame s9 s10" using st(10) by (rule frame_rpcDefaults)
  note lim = limitBlockSizes_Inr [OF st(11)]
  have "frame s11 s12" using st(12) by (rule frame_checkMiningKeys)
  also have "frame s12 s13" using st(13) by (rule frame_normalizeLists)
  also have "frame s13 (c', a')" using st(14) by (rule frame_setupStrategies)
  finally have f11: "frame s11 (c', a')" .
  have f110: "frame s1 s10" using f19 f910 by (rule frame_trans)
  show "numNets c \<le> 1" using sel by simp
  show "sameInputs c c'"
    using sel f110 lim f11 by (simp add: frame_def sameInputs_def)
  show "a' = (if TestNet3 c then testNet3Params e
               else if RegressionTest c then regressionNetParams e
               else if SimNet c then simNetParams e else a)"
    using sel f110 lim f11 by (simp add: frame_def)
  show "blockMaxSizeMin \<le> uint (BlockMaxSize c)"
    using sel f110 lim by (simp add: frame_def sameInputs_def)
  show "uint (BlockMaxSize c) \<le> blockMaxSizeMax e"
    using sel f110 lim by (simp add: frame_def sameInputs_def)
  show "BlockMinSize c' = minUint32 (BlockMinSize c) (BlockMaxSize c)"
    using sel f110 lim f11 by (simp add: frame_def sameInputs_def)
  show "BlockPrioritySize c' = minUint32 (BlockPrioritySize c) (BlockMaxSize c)"
    using sel f110 lim f11 by (simp add: frame_def sameInputs_def)
  show "DisableRPC c'" if "RPCUser c = [] \<or> RPCPass c = []"
  proof -
    have "RPCUser (fst s9) = [] \<or> RPCPass (fst s9) = []"
      using that sel f19 by (simp add: frame_def sameInputs_def)
    then have "DisableRPC (fst s10)" using st(10) by (rule rpcDefaults_disables [rotated])
    then show ?thesis using lim f11 by (simp add: frame_def)
  qed
  show "\<exists>c0. c' = setupOnion (setupDial c0)"
    using st(14) by (auto simp: setupStrategies_def split: prod.splits)
qed

lemma loadConfig_Loaded:
  assumes "loadConfig e = (reads, Loaded c' args a' w)"
  obtains c where "mergeSources e = (reads, Inr (c, args, w))"
    and "validate e (c, activeNetParams0 e) = Inr (c', a')"
  using assms
  by (auto simp: loadConfig_def checkAndFinish_def split: prod.splits sum.splits)


section \<open>Dial and lookup functions of a loaded configuration\<close>

lemmas eval_defs = source_defs step_defs const_defs addr_defs exampleEnv_def HasPrefix_def
  parseAndSetDebugLevels_def validLogLevel.simps Let_def

text \<open>
  C1: whenever \<^verbatim>\<open>loadConfig\<close> returns a configuration, its four functions are set as the
  table of section 4.8 prescribes, for every value of \<open>Proxy\<close>, \<open>OnionProxy\<close> and
  \<open>NoOnion\<close> of the merged configuration: the normal dial is the system dial without a
  proxy and the proxy dial with one; the normal lookup is the lookup through Tor at the
  proxy when a proxy is set and onion is not disabled, and the system resolver otherwise;
  the onion pair is the failing pair when onion is disabled, else the pair of the onion
  proxy when one is set, else the normal pair. None of the four is left unset.
\<close>

theorem strategies_by_table:
  assumes "loadConfig e = (reads, Loaded cfg args active w)"
  shows "dial cfg = Some (if Proxy cfg = [] then NetDial
                          else SocksDial (Proxy cfg) (ProxyUser cfg) (ProxyPass cfg))
    \<and> lookup cfg = Some (if Proxy cfg \<noteq> [] \<and> \<not> NoOnion cfg then TorLookupProxy
                        else NetLookupIP)
    \<and> oniondial cfg = (if NoOnion cfg then Some TorDisabledDial
                       else if OnionProxy cfg \<noteq> [] then Some OnionSocksDial
                       else dial cfg)
    \<and> onionlookup cfg = (if NoOnion cfg then Some TorDisabledLookup
                         else if OnionProxy cfg \<noteq> [] then Some TorLookupOnion
                         else lookup cfg)
    \<and> dial cfg \<noteq> None \<and> lookup cfg \<noteq> None \<and> oniondial cfg \<noteq> None \<and> onionlookup cfg \<noteq> None
    \<and> (\<exists>m. mergeSources e = (reads, Inr (m, args, w))
           \<and> Proxy cfg = Proxy m \<and> ProxyUser cfg = ProxyUser m \<and> ProxyPass cfg = ProxyPass m
           \<and> OnionProxy cfg = OnionProxy m \<and> NoOnion cfg = NoOnion m)"
proof -
  from assms obtain m where m: "mergeSources e = (reads, Inr (m, args, w))"
    and v: "validate e (m, activeNetParams0 e) = Inr (cfg, active)"
    by (rule loadConfig_Loaded)
  from validate_Inr(9) [OF v] obtain c0 where c0: "cfg = setupOnion (setupDial c0)" ..
  have s: "sameInputs m cfg" using v by (rule validate_Inr(2))
  have fields: "dial cfg = Some (if Proxy cfg = [] then NetDial
                          else SocksDial (Proxy cfg) (ProxyUser cfg) (ProxyPass cfg))
    \<and> lookup cfg = Some (if Proxy cfg \<noteq> [] \<and> \<not> NoOnion cfg then TorLookupProxy
                        else NetLookupIP)
    \<and> oniondial cfg = (if NoOnion cfg then Some TorDisabledDial
                       else if OnionProxy cfg \<noteq> [] then Some OnionSocksDial
                       else dial cfg)
    \<and> onionlookup cfg = (if NoOnion cfg then Some TorDisabledLookup
                         else if OnionProxy cfg \<noteq> [] then Some TorLookupOnion
                         else lookup cfg)"
    unfolding c0 by (simp add: setupDial_eq setupOnion_eq)
  then have set: "dial cfg \<noteq> None \<and> lookup cfg \<noteq> None \<and> oniondial cfg \<noteq> None
      \<and> onionlookup cfg \<noteq> None"
    by (simp split: if_splits)
  have "\<exists>m. mergeSources e = (reads, Inr (m, args, w))
           \<and> Proxy cfg = Proxy m \<and> ProxyUser cfg = ProxyUser m \<and> ProxyPass cfg = ProxyPass m
           \<and> OnionProxy cfg = OnionProxy m \<and> NoOnion cfg = NoOnion m"
    using m s by (auto simp: sameInputs_def)
  with fields set show ?thesis by (intro conjI) simp_all
qed

lemma example_proxy_run:
  "\<exists>reads cfg args active w.
     loadConfig (exampleEnv (\<lambda>c. c\<lparr>Proxy := ''127.0.0.1:9050'', NoOnion := True\<rparr>)
                  (\<lambda>c. (c, None))) = (reads, Loaded cfg args active w)
     \<and> Proxy cfg = ''127.0.0.1:9050'' \<and> ProxyUser cfg = [] \<and> ProxyPass cfg = []
     \<and> OnionProxy cfg = [] \<and> NoOnion cfg"
  by (simp add: eval_defs)

theorem strategies_by_table_witness:
  "\<exists>reads cfg args active w.
     loadConfig (exampleEnv (\<lambda>c. c\<lparr>Proxy := ''127.0.0.1:9050'', NoOnion := True\<rparr>)
                  (\<lambda>c. (c, None))) = (reads, Loaded cfg args active w)
     \<and> dial cfg = Some (SocksDial ''127.0.0.1:9050'' [] [])
     \<and> lookup cfg = Some NetLookupIP
     \<and> oniondial cfg = Some TorDisabledDial
     \<and> onionlookup cfg = Some TorDisabledLookup"
proof -
  from example_proxy_run obtain reads cfg args active w where
    run: "loadConfig (exampleEnv (\<lambda>c. c\<lparr>Proxy := ''127.0.0.1:9050'', NoOnion := True\<rparr>)
                  (\<lambda>c. (c, None))) = (reads, Loaded cfg args active w)"
    and f: "Proxy cfg = ''127.0.0.1:9050''" "ProxyUser cfg = []" "ProxyPass cfg = []"
      "OnionProxy cfg = []" "NoOnion cfg"
    by blast
  from strategies_by_table [OF run] f
  have "dial cfg = Some (SocksDial ''127.0.0.1:9050'' [] [])
     \<and> lookup cfg = Some NetLookupIP
     \<and> oniondial cfg = Some TorDisabledDial
     \<and> onionlookup cfg = Some TorDisabledLookup"
    by simp
  with run show ?thesis by blast
qed


section \<open>The RPC server\<close>

text \<open>
  C7: when the RPC user name or the RPC password of the merged configuration is empty,
  the configuration that \<^verbatim>\<open>loadConfig\<close> returns has the RPC server disabled; the checks
  change neither the user name nor the password.
\<close>

theorem rpc_disabled_without_credentials:
  assumes "mergeSources e = (reads, Inr (m, args, w))"
    and "loadConfig e = (reads', Loaded cfg args' active w')"
    and "RPCUser m = [] \<or> RPCPass m = []"
  shows "DisableRPC cfg \<and> RPCUser cfg = RPCUser m \<and> RPCPass cfg = RPCPass m"
proof -
  from assms(2) obtain c where c: "mergeSources e = (reads', Inr (c, args', w'))"
    and v: "validate e (c, activeNetParams0 e) = Inr (cfg, active)"
    by (rule loadConfig_Loaded)
  from c assms(1) have "c = m" by simp
  with v have v': "validate e (m, activeNetParams0 e) = Inr (cfg, active)" by simp
  have "DisableRPC cfg" using v' assms(3) by (rule validate_Inr(8))
  moreover have "sameInputs m cfg" using v' by (rule validate_Inr(2))
  ultimately show ?thesis by (simp add: sameInputs_def)
qed

lemma example_default_merge:
  "\<exists>m. mergeSources (exampleEnv (\<lambda>c. c) (\<lambda>c. (c, None)))
       = ([''/home/u/.btcd/btcd.conf''], Inr (m, [], None)) \<and> RPCUser m = [] \<and> RPCPass m = []"
  by (simp add: eval_defs)

lemma example_default_load:
  "\<exists>cfg active. loadConfig (exampleEnv (\<lambda>c. c) (\<lambda>c. (c, None)))
       = ([''/home/u/.btcd/btcd.conf''], Loaded cfg [] active None)"
  by (simp add: eval_defs)

theorem rpc_disabled_without_credentials_witness:
  "\<exists>m cfg active.
     mergeSources (exampleEnv (\<lambda>c. c) (\<lambda>c. (c, None)))
       = ([''/home/u/.btcd/btcd.conf''], Inr (m, [], None))
     \<and> loadConfig (exampleEnv (\<lambda>c. c) (\<lambda>c. (c, None)))
       = ([''/home/u/.btcd/btcd.conf''], Loaded cfg [] active None)
     \<and> RPCUser m = [] \<and> DisableRPC cfg"
proof -
  from example_default_merge obtain m where
    m: "mergeSources (exampleEnv (\<lambda>c. c) (\<lambda>c. (c, None)))
       = ([''/home/u/.btcd/btcd.conf''], Inr (m, [], None))"
    and u: "RPCUser m = []" by blast
  from example_default_load obtain cfg active where
    l: "loadConfig (exampleEnv (\<lambda>c. c) (\<lambda>c. (c, None)))
       = ([''/home/u/.btcd/btcd.conf''], Loaded cfg [] active None)" by blast
  from u have "RPCUser m = [] \<or> RPCPass m = []" by simp
  from rpc_disabled_without_credentials [OF m l this] have "DisableRPC cfg" by simp
  with m l u show ?thesis by blast
qed

section \<open>Block sizes\<close>

lemma runSteps_append:
  "runSteps (xs @ ys) s = (case runSteps xs s of Inl out \<Rightarrow> Inl out | Inr s' \<Rightarrow> runSteps ys s')"
  by (induction xs arbitrary: s) (auto split: sum.splits)

lemma validate_split:
  "validate e s =
     (case runSteps [selectNetwork e, namespaceDirs e, showSubsystems e, checkDebugLevel e,
             checkDbType e, checkProfile e, checkBanDuration, checkPeerOptions, listenDefaults,
             rpcDefaults e] s of
        Inl out \<Rightarrow> Inl out
      | Inr s' \<Rightarrow> runSteps [limitBlockSizes e, checkMiningKeys e, normalizeLists,
                     setupStrategies] s')"
proof -
  have "validate e s =
      runSteps ([selectNetwork e, namespaceDirs e, showSubsystems e, checkDebugLevel e,
             checkDbType e, checkProfile e, checkBanDuration, checkPeerOptions, listenDefaults,
             rpcDefaults e] @ [limitBlockSizes e, checkMiningKeys e, normalizeLists,
                     setupStrategies]) s"
    by (simp add: validate_def)
  then show ?thesis by (simp only: runSteps_append)
qed

lemma minUint32_le: "minUint32 a b \<le> b"
  by (auto simp: minUint32_def)

lemma before_block_sizes_frame:
  assumes "runSteps [selectNetwork e, namespaceDirs e, showSubsystems e, checkDebugLevel e,
             checkDbType e, checkProfile e, checkBanDuration, checkPeerOptions, listenDefaults,
             rpcDefaults e] (m, a) = Inr s"
  shows "BlockMaxSize (fst s) = BlockMaxSize m"
proof -
  from assms
  have "\<exists>s1 s2 s3 s4 s5 s6 s7 s8 s9.
      selectNetwork e (m, a) = Inr s1 \<and> namespaceDirs e s1 = Inr s2
      \<and> showSubsystems e s2 = Inr s3 \<and> checkDebugLevel e s3 = Inr s4
      \<and> checkDbType e s4 = Inr s5 \<and> checkProfile e s5 = Inr s6
      \<and> checkBanDuration s6 = Inr s7 \<and> checkPeerOptions s7 = Inr s8
      \<and> listenDefaults s8 = Inr s9 \<and> rpcDefaults e s9 = Inr s"
    unfolding runSteps_Cons_Inr runSteps_Nil_Inr
    apply clarify
    apply (intro exI conjI)
             apply assumption+
    done
  then obtain s1 s2 s3 s4 s5 s6 s7 s8 s9 where
    st: "selectNetwork e (m, a) = Inr s1" "namespaceDirs e s1 = Inr s2"
      "showSubsystems e s2 = Inr s3" "checkDebugLevel e s3 = Inr s4"
      "checkDbType e s4 = Inr s5" "checkProfile e s5 = Inr s6"
      "checkBanDuration s6 = Inr s7" "checkPeerOptions s7 = Inr s8"
      "listenDefaults s8 = Inr s9" "rpcDefaults e s9 = Inr s"
    by (elim exE conjE)
  note sel = selectNetwork_Inr [OF st(1)]
  note [trans] = frame_trans
  have "frame s1 s2" using st(2) by (rule frame_namespaceDirs)
  also have "frame s2 s3" using st(3) by (rule frame_showSubsystems)
  also have "frame s3 s4" using st(4) by (rule frame_checkDebugLevel)
  also have "frame s4 s5" using st(5) by (rule frame_checkDbType)
  also have "frame s5 s6" using st(6) by (rule frame_checkProfile)
  also have "frame s6 s7" using st(7) by (rule frame_checkBanDuration)
  also have "frame s7 s8" using st(8) by (rule frame_checkPeerOptions)
  also have "frame s8 s9" using st(9) by (rule frame_listenDefaults)
  also have "frame s9 s" using st(10) by (rule frame_rpcDefaults)
  finally have "frame s1 s" .
  with sel show ?thesis by (simp add: frame_def sameInputs_def)
qed

text \<open>
  C2, as amended: when \<open>BlockMaxSize\<close> of the merged configuration lies outside
  \<open>[1000, MaxBlockPayload - 1000]\<close>, \<^verbatim>\<open>loadConfig\<close> returns no configuration, and when
  the checks before the block-size check pass it fails with the error that names both
  bounds and the offending value. Inside the bounds the block-size check never fails: it
  clamps \<open>BlockPrioritySize\<close> and \<open>BlockMinSize\<close> down to \<open>BlockMaxSize\<close>, each on its
  own. A returned configuration has \<open>BlockMaxSize\<close> unchanged and inside the bounds,
  \<open>BlockMinSize \<le> BlockMaxSize\<close> and \<open>BlockPrioritySize \<le> BlockMaxSize\<close>.
\<close>

theorem block_sizes_limited:
  assumes "mergeSources e = (reads, Inr (m, args, w))"
  shows "(uint (BlockMaxSize m) < 1000 \<or> uint (BlockMaxSize m) > MaxBlockPayload e - 1000 \<longrightarrow>
           (\<forall>cfg args' active w'. snd (loadConfig e) \<noteq> Loaded cfg args' active w')
           \<and> (\<forall>s. runSteps [selectNetwork e, namespaceDirs e, showSubsystems e,
                       checkDebugLevel e, checkDbType e, checkProfile e, checkBanDuration,
                       checkPeerOptions, listenDefaults, rpcDefaults e]
                       (m, activeNetParams0 e) = Inr s \<longrightarrow>
                 snd (loadConfig e) =
                   Stopped (Failed
                     (BlockMaxSizeOutOfRange 1000 (MaxBlockPayload e - 1000) (BlockMaxSize m))
                     [PrintError
                        (BlockMaxSizeOutOfRange 1000 (MaxBlockPayload e - 1000) (BlockMaxSize m)),
                      WriteHelp])))
    \<and> (\<forall>c active. 1000 \<le> uint (BlockMaxSize c) \<and> uint (BlockMaxSize c) \<le> MaxBlockPayload e - 1000 \<longrightarrow>
          limitBlockSizes e (c, active) =
            Inr (c\<lparr>BlockPrioritySize :=
                      (if BlockPrioritySize c < BlockMaxSize c then BlockPrioritySize c
                       else BlockMaxSize c),
                   BlockMinSize :=
                      (if BlockMinSize c < BlockMaxSize c then BlockMinSize c
                       else BlockMaxSize c)\<rparr>, active))
    \<and> (\<forall>cfg args' active w'. snd (loadConfig e) = Loaded cfg args' active w' \<longrightarrow>
          1000 \<le> uint (BlockMaxSize cfg) \<and> uint (BlockMaxSize cfg) \<le> MaxBlockPayload e - 1000
          \<and> BlockMaxSize cfg = BlockMaxSize m
          \<and> BlockMinSize cfg =
              (if BlockMinSize m < BlockMaxSize m then BlockMinSize m else BlockMaxSize m)
          \<and> BlockPrioritySize cfg =
              (if BlockPrioritySize m < BlockMaxSize m then BlockPrioritySize m
               else BlockMaxSize m)
          \<and> BlockMinSize cfg \<le> BlockMaxSize cfg \<and> BlockPrioritySize cfg \<le> BlockMaxSize cfg)"
proof (intro conjI impI allI)
  have lc: "snd (loadConfig e) = checkAndFinish e (m, args, w)"
    using assms by (simp add: loadConfig_def)
  {
    fix cfg args' active w'
    assume l: "snd (loadConfig e) = Loaded cfg args' active w'"
    with lc have v: "validate e (m, activeNetParams0 e) = Inr (cfg, active)"
      by (auto simp: checkAndFinish_def split: sum.splits)
    note f = validate_Inr [OF v]
    have s: "BlockMaxSize cfg = BlockMaxSize m" using f(2) by (simp add: sameInputs_def)
    have "1000 \<le> uint (BlockMaxSize cfg)"
      and "uint (BlockMaxSize cfg) \<le> MaxBlockPayload e - 1000"
      and "BlockMaxSize cfg = BlockMaxSize m"
      and "BlockMinSize cfg =
              (if BlockMinSize m < BlockMaxSize m then BlockMinSize m else BlockMaxSize m)"
      and "BlockPrioritySize cfg =
              (if BlockPrioritySize m < BlockMaxSize m then BlockPrioritySize m
               else BlockMaxSize m)"
      and "BlockMinSize cfg \<le> BlockMaxSize cfg"
      and "BlockPrioritySize cfg \<le> BlockMaxSize cfg"
      using f(4-7) s minUint32_le [of "BlockMinSize m" "BlockMaxSize m"]
        minUint32_le [of "BlockPrioritySize m" "BlockMaxSize m"]
      by (simp_all add: blockMaxSizeMin_def blockMaxSizeMax_def minUint32_def)
  } note ok = this
  show "1000 \<le> uint (BlockMaxSize cfg)" if "snd (loadConfig e) = Loaded cfg args' active w'"
    for cfg args' active w' using ok(1) [OF that] by simp
  show "uint (BlockMaxSize cfg) \<le> MaxBlockPayload e - 1000"
    if "snd (loadConfig e) = Loaded cfg args' active w'"
    for cfg args' active w' using ok(2) [OF that] by simp
  show "BlockMaxSize cfg = BlockMaxSize m" if "snd (loadConfig e) = Loaded cfg args' active w'"
    for cfg args' active w' using ok(3) [OF that] by simp
  show "BlockMinSize cfg =
      (if BlockMinSize m < BlockMaxSize m then BlockMinSize m else BlockMaxSize m)"
    if "snd (loadConfig e) = Loaded cfg args' active w'"
    for cfg args' active w' using ok(4) [OF that] by simp
  show "BlockPrioritySize cfg =
      (if BlockPrioritySize m < BlockMaxSize m then BlockPrioritySize m else BlockMaxSize m)"
    if "snd (loadConfig e) = Loaded cfg args' active w'"
    for cfg args' active w' using ok(5) [OF that] by simp
  show "BlockMinSize cfg \<le> BlockMaxSize cfg"
    if "snd (loadConfig e) = Loaded cfg args' active w'"
    for cfg args' active w' using ok(6) [OF that] by simp
  show "BlockPrioritySize cfg \<le> BlockMaxSize cfg"
    if "snd (loadConfig e) = Loaded cfg args' active w'"
    for cfg args' active w' using ok(7) [OF that] by simp
  show "snd (loadConfig e) \<noteq> Loaded cfg args' active w'"
    if "uint (BlockMaxSize m) < 1000 \<or> uint (BlockMaxSize m) > MaxBlockPayload e - 1000"
    for cfg args' active w'
  proof
    assume "snd (loadConfig e) = Loaded cfg args' active w'"
    with lc have v: "validate e (m, activeNetParams0 e) = Inr (cfg, active)"
      by (auto simp: checkAndFinish_def split: sum.splits)
    from validate_Inr(4,5) [OF v]
    have "1000 \<le> uint (BlockMaxSize m)" "uint (BlockMaxSize m) \<le> MaxBlockPayload e - 1000"
      by (simp_all add: blockMaxSizeMin_def blockMaxSizeMax_def)
    with that show False by linarith
  qed
  show "snd (loadConfig e) =
      Stopped (Failed
        (BlockMaxSizeOutOfRange 1000 (MaxBlockPayload e - 1000) (BlockMaxSize m))
        [PrintError
           (BlockMaxSizeOutOfRange 1000 (MaxBlockPayload e - 1000) (BlockMaxSize m)),
         WriteHelp])"
    if r: "uint (BlockMaxSize m) < 1000 \<or> uint (BlockMaxSize m) > MaxBlockPayload e - 1000"
      and p: "runSteps [selectNetwork e, namespaceDirs e, showSubsystems e,
                       checkDebugLevel e, checkDbType e, checkProfile e, checkBanDuration,
                       checkPeerOptions, listenDefaults, rpcDefaults e]
                       (m, activeNetParams0 e) = Inr s"
    for s
  proof -
    have b: "BlockMaxSize (fst s) = BlockMaxSize m" using p by (rule before_block_sizes_frame)
    have "limitBlockSizes e s = Inl (usageError
        (BlockMaxSizeOutOfRange blockMaxSizeMin (blockMaxSizeMax e) (BlockMaxSize m)))"
      using r b by (cases s) (auto simp: limitBlockSizes_eq blockMaxSizeMin_def blockMaxSizeMax_def)
    then have "validate e (m, activeNetParams0 e) = Inl (usageError
        (BlockMaxSizeOutOfRange blockMaxSizeMin (blockMaxSizeMax e) (BlockMaxSize m)))"
      using p by (simp add: validate_split)
    with lc show ?thesis
      by (simp add: checkAndFinish_def usageError_def blockMaxSizeMin_def blockMaxSizeMax_def)
  qed
  show "limitBlockSizes e (c, active) =
            Inr (c\<lparr>BlockPrioritySize :=
                      (if BlockPrioritySize c < BlockMaxSize c then BlockPrioritySize c
                       else BlockMaxSize c),
                   BlockMinSize :=
                      (if BlockMinSize c < BlockMaxSize c then BlockMinSize c
                       else BlockMaxSize c)\<rparr>, active)"
    if "1000 \<le> uint (BlockMaxSize c) \<and> uint (BlockMaxSize c) \<le> MaxBlockPayload e - 1000"
    for c active
    using that
    by (simp add: limitBlockSizes_eq blockMaxSizeMin_def blockMaxSizeMax_def minUint32_def)
qed

text \<open>
  C2 as stated fails: with a minimum size of 5000, a priority size of 1000 and the default
  maximum of 750000 the run succeeds and returns the sizes as they are, the minimum above
  the priority size.
\<close>

theorem block_min_above_priority:
  "map_option BlockMinSize (theConfig (snd (loadConfig sizesRun))) = Some 5000
   \<and> map_option BlockPrioritySize (theConfig (snd (loadConfig sizesRun))) = Some 1000
   \<and> map_option BlockMaxSize (theConfig (snd (loadConfig sizesRun))) = Some 750000
   \<and> \<not> ((5000 :: 32 word) \<le> 1000)"
  by (simp add: eval_defs sizesRun_def)

lemma example_sizes_merge:
  "\<exists>m. mergeSources sizesRun = ([''/home/u/.btcd/btcd.conf''], Inr (m, [], None))
     \<and> BlockMaxSize m = 750000 \<and> BlockMinSize m = 5000 \<and> BlockPrioritySize m = 1000"
  by (simp add: eval_defs sizesRun_def)

lemma example_sizes_load:
  "\<exists>cfg active. snd (loadConfig sizesRun) = Loaded cfg [] active None"
  by (simp add: eval_defs sizesRun_def)

lemma example_small_max_merge:
  "\<exists>m s. mergeSources (exampleEnv (\<lambda>c. c\<lparr>BlockMaxSize := 500\<rparr>) (\<lambda>c. (c, None)))
       = ([''/home/u/.btcd/btcd.conf''], Inr (m, [], None))
     \<and> BlockMaxSize m = 500
     \<and> runSteps [selectNetwork (exampleEnv (\<lambda>c. c\<lparr>BlockMaxSize := 500\<rparr>) (\<lambda>c. (c, None))),
          namespaceDirs (exampleEnv (\<lambda>c. c\<lparr>BlockMaxSize := 500\<rparr>) (\<lambda>c. (c, None))),
          showSubsystems (exampleEnv (\<lambda>c. c\<lparr>BlockMaxSize := 500\<rparr>) (\<lambda>c. (c, None))),
          checkDebugLevel (exampleEnv (\<lambda>c. c\<lparr>BlockMaxSize := 500\<rparr>) (\<lambda>c. (c, None))),
          checkDbType (exampleEnv (\<lambda>c. c\<lparr>BlockMaxSize := 500\<rparr>) (\<lambda>c. (c, None))),
          checkProfile (exampleEnv (\<lambda>c. c\<lparr>BlockMaxSize := 500\<rparr>) (\<lambda>c. (c, None))),
          checkBanDuration, checkPeerOptions, listenDefaults,
          rpcDefaults (exampleEnv (\<lambda>c. c\<lparr>BlockMaxSize := 500\<rparr>) (\<lambda>c. (c, None)))]
         (m, activeNetParams0 (exampleEnv (\<lambda>c. c\<lparr>BlockMaxSize := 500\<rparr>) (\<lambda>c. (c, None))))
       = Inr s"
  by (simp add: eval_defs)

theorem block_sizes_limited_witness:
  "(\<exists>m cfg active.
      mergeSources sizesRun = ([''/home/u/.btcd/btcd.conf''], Inr (m, [], None))
      \<and> snd (loadConfig sizesRun) = Loaded cfg [] active None
      \<and> BlockMaxSize cfg = 750000 \<and> BlockMinSize cfg = 5000 \<and> BlockPrioritySize cfg = 1000
      \<and> BlockMinSize cfg \<le> BlockMaxSize cfg \<and> BlockPrioritySize cfg \<le> BlockMaxSize cfg)
   \<and> snd (loadConfig (exampleEnv (\<lambda>c. c\<lparr>BlockMaxSize := 500\<rparr>) (\<lambda>c. (c, None))))
       = Stopped (Failed (BlockMaxSizeOutOfRange 1000 999000 500)
           [PrintError (BlockMaxSizeOutOfRange 1000 999000 500), WriteHelp])"
proof
  from example_sizes_merge obtain m where
    m: "mergeSources sizesRun = ([''/home/u/.btcd/btcd.conf''], Inr (m, [], None))"
    and f: "BlockMaxSize m = 750000" "BlockMinSize m = 5000" "BlockPrioritySize m = 1000"
    by blast
  from example_sizes_load obtain cfg active where
    l: "snd (loadConfig sizesRun) = Loaded cfg [] active None" by blast
  from block_sizes_limited [OF m] l
  have "BlockMaxSize cfg = BlockMaxSize m
      \<and> BlockMinSize cfg =
              (if BlockMinSize m < BlockMaxSize m then BlockMinSize m else BlockMaxSize m)
      \<and> BlockPrioritySize cfg =
              (if BlockPrioritySize m < BlockMaxSize m then BlockPrioritySize m
               else BlockMaxSize m)
      \<and> BlockMinSize cfg \<le> BlockMaxSize cfg \<and> BlockPrioritySize cfg \<le> BlockMaxSize cfg"
    by blast
  with f have "BlockMaxSize cfg = 750000 \<and> BlockMinSize cfg = 5000 \<and> BlockPrioritySize cfg = 1000
      \<and> BlockMinSize cfg \<le> BlockMaxSize cfg \<and> BlockPrioritySize cfg \<le> BlockMaxSize cfg"
    by simp
  with m l show "\<exists>m cfg active.
      mergeSources sizesRun = ([''/home/u/.btcd/btcd.conf''], Inr (m, [], None))
      \<and> snd (loadConfig sizesRun) = Loaded cfg [] active None
      \<and> BlockMaxSize cfg = 750000 \<and> BlockMinSize cfg = 5000 \<and> BlockPrioritySize cfg = 1000
      \<and> BlockMinSize cfg \<le> BlockMaxSize cfg \<and> BlockPrioritySize cfg \<le> BlockMaxSize cfg"
    by blast
next
  let ?e = "exampleEnv (\<lambda>c. c\<lparr>BlockMaxSize := 500\<rparr>) (\<lambda>c. (c, None))"
  from example_small_max_merge obtain m s where
    m: "mergeSources ?e = ([''/home/u/.btcd/btcd.conf''], Inr (m, [], None))"
    and b: "BlockMaxSize m = 500"
    and r: "runSteps [selectNetwork ?e, namespaceDirs ?e, showSubsystems ?e, checkDebugLevel ?e,
          checkDbType ?e, checkProfile ?e, checkBanDuration, checkPeerOptions, listenDefaults,
          rpcDefaults ?e] (m, activeNetParams0 ?e) = Inr s"
    by blast
  have o: "uint (BlockMaxSize m) < 1000 \<or> uint (BlockMaxSize m) > MaxBlockPayload ?e - 1000"
    using b by simp
  have p: "MaxBlockPayload ?e = 1000000" by (simp add: exampleEnv_def)
  from block_sizes_limited [OF m] o r
  have "snd (loadConfig ?e) =
      Stopped (Failed
        (BlockMaxSizeOutOfRange 1000 (MaxBlockPayload ?e - 1000) (BlockMaxSize m))
        [PrintError
           (BlockMaxSizeOutOfRange 1000 (MaxBlockPayload ?e - 1000) (BlockMaxSize m)),
         WriteHelp])"
    by blast
  then show "snd (loadConfig ?e)
       = Stopped (Failed (BlockMaxSizeOutOfRange 1000 999000 500)
           [PrintError (BlockMaxSizeOutOfRange 1000 999000 500), WriteHelp])"
    by (simp only: p b) simp
qed





section \<open>Network selection\<close>

lemma decodeMiningKeys_not_nets: "decodeMiningKeys e a ks l \<noteq> Inl MultipleNetsError"
  by (induction l arbitrary: ks) (auto split: sum.splits)

lemma namespaceDirs_not_nets: "namespaceDirs e s \<noteq> Inl (usageError MultipleNetsError)"
  by (cases s) (simp add: namespaceDirs_def)

lemma showSubsystems_not_nets: "showSubsystems e s \<noteq> Inl (usageError MultipleNetsError)"
  by (cases s) (simp add: showSubsystems_def usageError_def)

lemma checkDebugLevel_not_nets: "checkDebugLevel e s \<noteq> Inl (usageError MultipleNetsError)"
  by (cases s) (simp add: checkDebugLevel_def usageError_def split: option.splits)

lemma checkDbType_not_nets: "checkDbType e s \<noteq> Inl (usageError MultipleNetsError)"
  by (cases s) (simp add: checkDbType_def usageError_def)

lemma checkProfile_not_nets: "checkProfile e s \<noteq> Inl (usageError MultipleNetsError)"
  by (cases s) (simp add: checkProfile_def usageError_def split: option.splits)

lemma checkBanDuration_not_nets: "checkBanDuration s \<noteq> Inl (usageError MultipleNetsError)"
  by (cases s) (simp add: checkBanDuration_def usageError_def)

lemma checkPeerOptions_not_nets: "checkPeerOptions s \<noteq> Inl (usageError MultipleNetsError)"
  by (cases s) (simp add: checkPeerOptions_def usageError_def)

lemma listenDefaults_not_nets: "listenDefaults s \<noteq> Inl (usageError MultipleNetsError)"
  by (cases s) (simp add: listenDefaults_eq)

lemma rpcDefaults_not_nets: "rpcDefaults e s \<noteq> Inl (usageError MultipleNetsError)"
  by (cases s) (simp add: rpcDefaults_eq usageError_def split: sum.splits)

lemma limitBlockSizes_not_nets: "limitBlockSizes e s \<noteq> Inl (usageError MultipleNetsError)"
  by (cases s) (simp add: limitBlockSizes_eq usageError_def)

lemma checkMiningKeys_not_nets: "checkMiningKeys e s \<noteq> Inl (usageError MultipleNetsError)"
  using decodeMiningKeys_not_nets
  by (cases s) (auto simp: checkMiningKeys_def usageError_def split: sum.splits)

lemma normalizeLists_not_nets: "normalizeLists s \<noteq> Inl (usageError MultipleNetsError)"
  by (cases s) (simp add: normalizeLists_eq)

lemma setupStrategies_not_nets: "setupStrategies s \<noteq> Inl (usageError MultipleNetsError)"
  by (cases s) (simp add: setupStrategies_def)

lemma runSteps_Cons_Inl:
  "(runSteps (f # fs) s = Inl out) =
     (f s = Inl out \<or> (\<exists>s'. f s = Inr s' \<and> runSteps fs s' = Inl out))"
  by (cases "f s") auto

lemma later_checks_not_nets:
  "runSteps [namespaceDirs e, showSubsystems e, checkDebugLevel e,
       checkDbType e, checkProfile e, checkBanDuration, checkPeerOptions, listenDefaults,
       rpcDefaults e, limitBlockSizes e, checkMiningKeys e, normalizeLists, setupStrategies] s
     \<noteq> Inl (usageError MultipleNetsError)"
  unfolding runSteps_Cons_Inl
  by (simp add: namespaceDirs_not_nets showSubsystems_not_nets checkDebugLevel_not_nets
      checkDbType_not_nets checkProfile_not_nets checkBanDuration_not_nets
      checkPeerOptions_not_nets listenDefaults_not_nets rpcDefaults_not_nets
      limitBlockSizes_not_nets checkMiningKeys_not_nets normalizeLists_not_nets
      setupStrategies_not_nets)

lemma validate_Cons:
  "validate e s =
     (case selectNetwork e s of
        Inl out \<Rightarrow> Inl out
      | Inr s' \<Rightarrow>
          runSteps [namespaceDirs e, showSubsystems e, checkDebugLevel e,
            checkDbType e, checkProfile e, checkBanDuration, checkPeerOptions, listenDefaults,
            rpcDefaults e, limitBlockSizes e, checkMiningKeys e, normalizeLists,
            setupStrategies] s')"
  by (simp add: validate_def)

lemma numNets_two:
  "(numNets m > 1) =
     ((TestNet3 m \<and> RegressionTest m) \<or> (TestNet3 m \<and> SimNet m)
      \<or> (RegressionTest m \<and> SimNet m))"
  by (auto simp: numNets_def)

lemma selectNetwork_ok:
  "\<not> numNets c > 1 \<Longrightarrow>
     selectNetwork e (c, a) =
       Inr (if \<not> TestNet3 c \<and> \<not> RegressionTest c \<and> SimNet c
            then c\<lparr>DisableDNSSeed := True\<rparr> else c,
            if TestNet3 c then testNet3Params e
            else if RegressionTest c then regressionNetParams e
            else if SimNet c then simNetParams e else a)"
  by (simp add: selectNetwork_def)

text \<open>
  C3: with the merged configuration at hand, \<^verbatim>\<open>loadConfig\<close> fails with the error of the
  network flags exactly when two or three of \<open>TestNet3\<close>, \<open>RegressionTest\<close> and
  \<open>SimNet\<close> are set. With at most one set the network selection passes and binds the
  profile of the flag, the main network profile when none is set, and that profile is the
  active one when the configuration is returned.
\<close>

theorem network_selection:
  assumes "mergeSources e = (reads, Inr (m, args, w))"
  shows "((snd (loadConfig e)
            = Stopped (Failed MultipleNetsError [PrintError MultipleNetsError, WriteHelp]))
          = ((TestNet3 m \<and> RegressionTest m) \<or> (TestNet3 m \<and> SimNet m)
              \<or> (RegressionTest m \<and> SimNet m)))
    \<and> (\<not> ((TestNet3 m \<and> RegressionTest m) \<or> (TestNet3 m \<and> SimNet m)
              \<or> (RegressionTest m \<and> SimNet m)) \<longrightarrow>
         (\<exists>cfg. selectNetwork e (m, activeNetParams0 e) =
            Inr (cfg, if TestNet3 m then testNet3Params e
                      else if RegressionTest m then regressionNetParams e
                      else if SimNet m then simNetParams e else mainNetParams e)))
    \<and> (\<forall>cfg args' active w'. snd (loadConfig e) = Loaded cfg args' active w' \<longrightarrow>
          active = (if TestNet3 m then testNet3Params e
                    else if RegressionTest m then regressionNetParams e
                    else if SimNet m then simNetParams e else mainNetParams e))"
proof (intro conjI impI allI)
  have lc: "snd (loadConfig e) = checkAndFinish e (m, args, w)"
    using assms by (simp add: loadConfig_def)
  let ?two = "(TestNet3 m \<and> RegressionTest m) \<or> (TestNet3 m \<and> SimNet m)
              \<or> (RegressionTest m \<and> SimNet m)"
  show "(snd (loadConfig e)
            = Stopped (Failed MultipleNetsError [PrintError MultipleNetsError, WriteHelp]))
          = ?two"
  proof
    assume f: "snd (loadConfig e)
            = Stopped (Failed MultipleNetsError [PrintError MultipleNetsError, WriteHelp])"
    with lc have v: "validate e (m, activeNetParams0 e) = Inl (usageError MultipleNetsError)"
      by (auto simp: checkAndFinish_def usageError_def split: sum.splits)
    show ?two
    proof (rule ccontr)
      assume "\<not> ?two"
      then have "\<not> numNets m > 1" using numNets_two [of m] by blast
      then obtain s1 where "selectNetwork e (m, activeNetParams0 e) = Inr s1"
        using selectNetwork_ok [of m e "activeNetParams0 e"] by blast
      with v later_checks_not_nets [of e s1] show False
        by (simp add: validate_Cons)
    qed
  next
    assume ?two
    then have "numNets m > 1" using numNets_two [of m] by blast
    then have "selectNetwork e (m, activeNetParams0 e) = Inl (usageError MultipleNetsError)"
      by (simp add: selectNetwork_def)
    then have "validate e (m, activeNetParams0 e) = Inl (usageError MultipleNetsError)"
      by (simp add: validate_Cons)
    with lc show "snd (loadConfig e)
            = Stopped (Failed MultipleNetsError [PrintError MultipleNetsError, WriteHelp])"
      by (simp add: checkAndFinish_def usageError_def)
  qed
  show "\<exists>cfg. selectNetwork e (m, activeNetParams0 e) =
            Inr (cfg, if TestNet3 m then testNet3Params e
                      else if RegressionTest m then regressionNetParams e
                      else if SimNet m then simNetParams e else mainNetParams e)"
    if "\<not> ?two"
  proof -
    from that have "\<not> numNets m > 1" using numNets_two [of m] by blast
    then show ?thesis
      using selectNetwork_ok [of m e "activeNetParams0 e"]
      by (simp add: activeNetParams0_def)
  qed
  show "active = (if TestNet3 m then testNet3Params e
                    else if RegressionTest m then regressionNetParams e
                    else if SimNet m then simNetParams e else mainNetParams e)"
    if "snd (loadConfig e) = Loaded cfg args' active w'" for cfg args' active w'
  proof -
    from that lc have v: "validate e (m, activeNetParams0 e) = Inr (cfg, active)"
      by (auto simp: checkAndFinish_def split: sum.splits)
    from validate_Inr(3) [OF v] show ?thesis by (simp add: activeNetParams0_def)
  qed
qed

lemma example_testnet_merge:
  "\<exists>m. mergeSources (exampleEnv (\<lambda>c. c\<lparr>TestNet3 := True\<rparr>) (\<lambda>c. (c, None)))
       = ([''/home/u/.btcd/btcd.conf''], Inr (m, [], None))
     \<and> TestNet3 m \<and> \<not> RegressionTest m \<and> \<not> SimNet m"
  by (simp add: eval_defs)

lemma example_testnet_load:
  "\<exists>cfg active. snd (loadConfig (exampleEnv (\<lambda>c. c\<lparr>TestNet3 := True\<rparr>) (\<lambda>c. (c, None))))
       = Loaded cfg [] active None"
  by (simp add: eval_defs)

lemma example_two_nets_merge:
  "\<exists>m. mergeSources (exampleEnv (\<lambda>c. c\<lparr>TestNet3 := True, SimNet := True\<rparr>) (\<lambda>c. (c, None)))
       = ([], Inr (m, [], None))
     \<and> TestNet3 m \<and> \<not> RegressionTest m \<and> SimNet m"
  by (simp add: eval_defs)

theorem network_selection_witness:
  "(\<exists>m cfg.
      mergeSources (exampleEnv (\<lambda>c. c\<lparr>TestNet3 := True\<rparr>) (\<lambda>c. (c, None)))
        = ([''/home/u/.btcd/btcd.conf''], Inr (m, [], None))
      \<and> TestNet3 m \<and> \<not> RegressionTest m \<and> \<not> SimNet m
      \<and> snd (loadConfig (exampleEnv (\<lambda>c. c\<lparr>TestNet3 := True\<rparr>) (\<lambda>c. (c, None))))
        = Loaded cfg []
            \<lparr>Name = ''testnet3'', DefaultPort = ''18333'', rpcPort = ''18334''\<rparr> None)
   \<and> snd (loadConfig (exampleEnv (\<lambda>c. c\<lparr>TestNet3 := True, SimNet := True\<rparr>) (\<lambda>c. (c, None))))
       = Stopped (Failed MultipleNetsError [PrintError MultipleNetsError, WriteHelp])"
proof
  let ?e = "exampleEnv (\<lambda>c. c\<lparr>TestNet3 := True\<rparr>) (\<lambda>c. (c, None))"
  from example_testnet_merge obtain m where
    m: "mergeSources ?e = ([''/home/u/.btcd/btcd.conf''], Inr (m, [], None))"
    and f: "TestNet3 m" "\<not> RegressionTest m" "\<not> SimNet m" by blast
  from example_testnet_load obtain cfg active where
    l: "snd (loadConfig ?e) = Loaded cfg [] active None" by blast
  from network_selection [OF m] l f
  have "active = testNet3Params ?e" by simp
  then have "active = \<lparr>Name = ''testnet3'', DefaultPort = ''18333'', rpcPort = ''18334''\<rparr>"
    by (simp add: exampleEnv_def)
  with m f l show "\<exists>m cfg.
      mergeSources ?e = ([''/home/u/.btcd/btcd.conf''], Inr (m, [], None))
      \<and> TestNet3 m \<and> \<not> RegressionTest m \<and> \<not> SimNet m
      \<and> snd (loadConfig ?e)
        = Loaded cfg []
            \<lparr>Name = ''testnet3'', DefaultPort = ''18333'', rpcPort = ''18334''\<rparr> None"
    by blast
next
  let ?e = "exampleEnv (\<lambda>c. c\<lparr>TestNet3 := True, SimNet := True\<rparr>) (\<lambda>c. (c, None))"
  from example_two_nets_merge obtain m where
    m: "mergeSources ?e = ([], Inr (m, [], None))"
    and f: "TestNet3 m" "SimNet m" by blast
  from network_selection [OF m] f
  show "snd (loadConfig ?e)
       = Stopped (Failed MultipleNetsError [PrintError MultipleNetsError, WriteHelp])"
    by simp
qed


section \<open>Peers of the configuration file in regression test mode\<close>

lemma dropFilePeers_regtest:
  "RegressionTest preCfg \<Longrightarrow> dropFilePeers preCfg cfg = cfg\<lparr>AddPeers := []\<rparr>"
  by (simp add: dropFilePeers_def)

text \<open>
  C5, as amended: in a run whose pre-parse finds regression test mode and that gets past
  the configuration file, the final parse of the command line starts from the
  configuration of the file pass with the add-peer list emptied; the connect-only list
  and every other field are as the file pass left them.
\<close>

theorem file_add_peers_dropped:
  assumes "MkdirAll e (btcdHomeDir e) = None"
    and "prePass e = (preCfg, serviceCommand)"
    and "\<not> ShowVersion preCfg"
    and "serviceExit e serviceCommand = None"
    and "RegressionTest preCfg"
    and "filePass e preCfg (defaultConfig e, serviceCommand)
           = (reads, Inr ((fileCfg, serviceCommand'), w))"
  shows "mergeSources e =
           (reads, case finalPass e (fileCfg\<lparr>AddPeers := []\<rparr>, serviceCommand') of
                     Inl out \<Rightarrow> Inl out
                   | Inr (cfg, remainingArgs) \<Rightarrow> Inr (cfg, remainingArgs, w))
    \<and> AddPeers (fileCfg\<lparr>AddPeers := []\<rparr>) = []
    \<and> ConnectPeers (fileCfg\<lparr>AddPeers := []\<rparr>) = ConnectPeers fileCfg"
  using assms
  by (simp add: mergeSources_def mergeAfterFile_def dropFilePeers_regtest)

text \<open>
  C5 as stated fails: with regression test mode and another configuration file on the
  command line and no peer there, a connect-only peer of the file is in the returned
  configuration, while the add-peer of the file is gone.
\<close>

theorem file_connect_peers_kept:
  "fst (loadConfig regtestFileRun) = [''/etc/btcd.conf'']
   \<and> map_option RegressionTest (theConfig (snd (loadConfig regtestFileRun))) = Some True
   \<and> map_option AddPeers (theConfig (snd (loadConfig regtestFileRun))) = Some []
   \<and> map_option ConnectPeers (theConfig (snd (loadConfig regtestFileRun)))
       = Some [''1.2.3.4:18444'']"
  by (simp add: eval_defs regtestFileRun_def)

lemma example_regtest_file:
  "MkdirAll regtestFileRun (btcdHomeDir regtestFileRun) = None
   \<and> (\<exists>preCfg fileCfg.
        prePass regtestFileRun = (preCfg, []) \<and> \<not> ShowVersion preCfg
        \<and> RegressionTest preCfg
        \<and> filePass regtestFileRun preCfg (defaultConfig regtestFileRun, [])
            = ([''/etc/btcd.conf''], Inr ((fileCfg, []), None))
        \<and> AddPeers fileCfg = [''5.6.7.8''] \<and> ConnectPeers fileCfg = [''1.2.3.4''])
   \<and> serviceExit regtestFileRun [] = None"
  by (simp add: eval_defs regtestFileRun_def)

lemma example_regtest_merge:
  "\<exists>m. mergeSources regtestFileRun = ([''/etc/btcd.conf''], Inr (m, [], None))
     \<and> AddPeers m = [] \<and> ConnectPeers m = [''1.2.3.4'']"
  by (simp add: eval_defs regtestFileRun_def)

theorem file_add_peers_dropped_witness:
  "\<exists>preCfg fileCfg m.
     prePass regtestFileRun = (preCfg, []) \<and> RegressionTest preCfg
     \<and> filePass regtestFileRun preCfg (defaultConfig regtestFileRun, [])
          = ([''/etc/btcd.conf''], Inr ((fileCfg, []), None))
     \<and> AddPeers fileCfg = [''5.6.7.8'']
     \<and> mergeSources regtestFileRun = ([''/etc/btcd.conf''], Inr (m, [], None))
     \<and> finalPass regtestFileRun (fileCfg\<lparr>AddPeers := []\<rparr>, []) = Inr (m, [])"
proof -
  from example_regtest_file obtain preCfg fileCfg where
    a: "MkdirAll regtestFileRun (btcdHomeDir regtestFileRun) = None"
    and b: "prePass regtestFileRun = (preCfg, [])" "\<not> ShowVersion preCfg"
      "RegressionTest preCfg"
    and c: "filePass regtestFileRun preCfg (defaultConfig regtestFileRun, [])
            = ([''/etc/btcd.conf''], Inr ((fileCfg, []), None))"
    and d: "AddPeers fileCfg = [''5.6.7.8'']"
    and s: "serviceExit regtestFileRun [] = None"
    by blast
  from example_regtest_merge obtain m where
    m: "mergeSources regtestFileRun = ([''/etc/btcd.conf''], Inr (m, [], None))" by blast
  from file_add_peers_dropped [OF a b(1) b(2) s b(3) c] m
  have "finalPass regtestFileRun (fileCfg\<lparr>AddPeers := []\<rparr>, []) = Inr (m, [])"
    by (auto split: sum.splits)
  with b c d m show ?thesis by blast
qed


section \<open>Skipping the default configuration file\<close>


lemma decodeMiningKeys_ParseFile [simp]:
  "decodeMiningKeys (e\<lparr>ParseFile := f\<rparr>) a ks l = decodeMiningKeys e a ks l"
  by (induction l arbitrary: ks) (auto split: sum.splits)

lemma selectNetwork_ParseFile: "selectNetwork (e\<lparr>ParseFile := f\<rparr>) = selectNetwork e"
  by (rule ext) (auto simp: selectNetwork_def)

lemma namespaceDirs_ParseFile: "namespaceDirs (e\<lparr>ParseFile := f\<rparr>) = namespaceDirs e"
  by (rule ext) (auto simp: namespaceDirs_def cleanAndExpandPath_def)

lemma showSubsystems_ParseFile: "showSubsystems (e\<lparr>ParseFile := f\<rparr>) = showSubsystems e"
  by (rule ext) (auto simp: showSubsystems_def)

lemma checkDebugLevel_ParseFile: "checkDebugLevel (e\<lparr>ParseFile := f\<rparr>) = checkDebugLevel e"
  by (rule ext) (auto simp: checkDebugLevel_def)

lemma checkDbType_ParseFile: "checkDbType (e\<lparr>ParseFile := f\<rparr>) = checkDbType e"
  by (rule ext) (auto simp: checkDbType_def)

lemma checkProfile_ParseFile: "checkProfile (e\<lparr>ParseFile := f\<rparr>) = checkProfile e"
  by (rule ext) (auto simp: checkProfile_def)

lemma rpcDefaults_ParseFile: "rpcDefaults (e\<lparr>ParseFile := f\<rparr>) = rpcDefaults e"
  by (rule ext) (auto simp: rpcDefaults_eq)

lemma limitBlockSizes_ParseFile: "limitBlockSizes (e\<lparr>ParseFile := f\<rparr>) = limitBlockSizes e"
  by (rule ext) (auto simp: limitBlockSizes_eq blockMaxSizeMax_def)

lemma checkMiningKeys_ParseFile: "checkMiningKeys (e\<lparr>ParseFile := f\<rparr>) = checkMiningKeys e"
  by (rule ext) (auto simp: checkMiningKeys_def)

lemma validate_ParseFile [simp]: "validate (e\<lparr>ParseFile := f\<rparr>) = validate e"
  by (simp add: validate_def selectNetwork_ParseFile namespaceDirs_ParseFile
      showSubsystems_ParseFile checkDebugLevel_ParseFile checkDbType_ParseFile
      checkProfile_ParseFile rpcDefaults_ParseFile limitBlockSizes_ParseFile
      checkMiningKeys_ParseFile)

lemma checkAndFinish_ParseFile [simp]:
  "checkAndFinish (e\<lparr>ParseFile := f\<rparr>) = checkAndFinish e"
  by (rule ext) (auto simp: checkAndFinish_def activeNetParams0_def)

lemma mergeAfterFile_ParseFile [simp]:
  "mergeAfterFile (e\<lparr>ParseFile := f\<rparr>) = mergeAfterFile e"
  by (intro ext) (auto simp: mergeAfterFile_def finalPass_def)

lemma prePass_ParseFile [simp]: "prePass (e\<lparr>ParseFile := f\<rparr>) = prePass e"
  by (simp add: prePass_def defaultConfig_def)

lemma serviceExit_ParseFile [simp]: "serviceExit (e\<lparr>ParseFile := f\<rparr>) = serviceExit e"
  by (simp add: serviceExit_def fun_eq_iff)

lemma defaultConfig_ParseFile [simp]: "defaultConfig (e\<lparr>ParseFile := f\<rparr>) = defaultConfig e"
  by (simp add: defaultConfig_def)



lemma checkAndFinish_warning:
  "checkAndFinish e (cfg, args, w) = withWarning w (checkAndFinish e (cfg, args, None))"
  by (simp add: checkAndFinish_def split: sum.splits prod.splits)

lemma mergeAfterFile_warning:
  "(case mergeAfterFile e preCfg (st, w) of
      Inl out \<Rightarrow> Stopped out | Inr merged \<Rightarrow> checkAndFinish e merged)
   = withWarning w
       (case mergeAfterFile e preCfg (st, None) of
          Inl out \<Rightarrow> Stopped out | Inr merged \<Rightarrow> checkAndFinish e merged)"
  by (cases st)
    (auto simp: mergeAfterFile_def checkAndFinish_warning [where w = w]
      split: sum.splits prod.splits)






section \<open>Errors of the configuration file\<close>

lemma loadConfig_after_file:
  assumes "MkdirAll e (btcdHomeDir e) = None"
    and "prePass e = (preCfg, serviceCommand)"
    and "\<not> ShowVersion preCfg"
    and "serviceExit e serviceCommand = None"
    and "\<not> (RegressionTest preCfg \<or> SimNet preCfg) \<or> ConfigFile preCfg \<noteq> defaultConfigFile e"
    and "ParseFile e (ConfigFile preCfg) (defaultConfig e, serviceCommand) = (st, ferr)"
  shows "loadConfig e =
      ([ConfigFile preCfg],
       case ferr of
         None \<Rightarrow> (case mergeAfterFile e preCfg (st, None) of
                     Inl out \<Rightarrow> Stopped out | Inr merged \<Rightarrow> checkAndFinish e merged)
       | Some (PathError k) \<Rightarrow>
           (case mergeAfterFile e preCfg (st, Some k) of
              Inl out \<Rightarrow> Stopped out | Inr merged \<Rightarrow> checkAndFinish e merged)
       | Some (ParseFailure msg) \<Rightarrow> Stopped (usageError (ConfigFileError msg)))"
  using assms
  by (auto simp: loadConfig_def mergeSources_def filePass_def
      split: option.splits file_error.splits sum.splits prod.splits)

text \<open>
  C10: in a run that reads the configuration file, a path error of any kind is not fatal:
  the run ends as it would have ended had the parser reported no error and left the same
  configuration, except that a returned configuration carries the path error as the
  deferred warning. An error of the parser that is no path error ends the run with that
  error, printed with the usage.
\<close>

theorem path_error_is_warning:
  assumes "MkdirAll e (btcdHomeDir e) = None"
    and "prePass e = (preCfg, serviceCommand)"
    and "\<not> ShowVersion preCfg"
    and "serviceExit e serviceCommand = None"
    and "\<not> (RegressionTest preCfg \<or> SimNet preCfg) \<or> ConfigFile preCfg \<noteq> defaultConfigFile e"
    and "ParseFile e (ConfigFile preCfg) (defaultConfig e, serviceCommand) = (st, ferr)"
  shows "(\<forall>k. ferr = Some (PathError k) \<longrightarrow>
            loadConfig e =
              ([ConfigFile preCfg],
               withWarning (Some k)
                 (snd (loadConfig (e\<lparr>ParseFile := (\<lambda>path st'. (st, None))\<rparr>)))))
    \<and> (\<forall>msg. ferr = Some (ParseFailure msg) \<longrightarrow>
            loadConfig e =
              ([ConfigFile preCfg],
               Stopped (Failed (ConfigFileError msg)
                          [PrintError (ConfigFileError msg), WriteHelp])))"
proof (intro conjI allI impI)
  fix k assume k: "ferr = Some (PathError k)"
  let ?e0 = "e\<lparr>ParseFile := (\<lambda>path st'. (st, None))\<rparr>"
  have "loadConfig ?e0 =
      ([ConfigFile preCfg],
       case mergeAfterFile ?e0 preCfg (st, None) of
         Inl out \<Rightarrow> Stopped out | Inr merged \<Rightarrow> checkAndFinish ?e0 merged)"
    using loadConfig_after_file [of ?e0 preCfg serviceCommand st None] assms(1-5)
    by simp
  then have e0: "snd (loadConfig ?e0) =
      (case mergeAfterFile e preCfg (st, None) of
         Inl out \<Rightarrow> Stopped out | Inr merged \<Rightarrow> checkAndFinish e merged)"
    by (simp cong: sum.case_cong)
  have "loadConfig e =
      ([ConfigFile preCfg],
       case mergeAfterFile e preCfg (st, Some k) of
         Inl out \<Rightarrow> Stopped out | Inr merged \<Rightarrow> checkAndFinish e merged)"
    using loadConfig_after_file [OF assms] k by simp
  then show "loadConfig e =
      ([ConfigFile preCfg], withWarning (Some k) (snd (loadConfig ?e0)))"
    by (simp only: e0 mergeAfterFile_warning [of e preCfg st "Some k"])
next
  fix msg assume "ferr = Some (ParseFailure msg)"
  with loadConfig_after_file [OF assms]
  show "loadConfig e =
      ([ConfigFile preCfg],
       Stopped (Failed (ConfigFileError msg) [PrintError (ConfigFileError msg), WriteHelp]))"
    by (simp add: usageError_def)
qed

lemma example_denied:
  "MkdirAll (exampleEnv (\<lambda>c. c) (\<lambda>c. (c, Some (PathError Permission))))
      (btcdHomeDir (exampleEnv (\<lambda>c. c) (\<lambda>c. (c, Some (PathError Permission))))) = None
   \<and> (\<exists>preCfg.
        prePass (exampleEnv (\<lambda>c. c) (\<lambda>c. (c, Some (PathError Permission)))) = (preCfg, [])
        \<and> \<not> ShowVersion preCfg \<and> \<not> RegressionTest preCfg \<and> \<not> SimNet preCfg
        \<and> ConfigFile preCfg = ''/home/u/.btcd/btcd.conf''
        \<and> ParseFile (exampleEnv (\<lambda>c. c) (\<lambda>c. (c, Some (PathError Permission))))
             (ConfigFile preCfg)
             (defaultConfig (exampleEnv (\<lambda>c. c) (\<lambda>c. (c, Some (PathError Permission)))), [])
            = ((defaultConfig (exampleEnv (\<lambda>c. c) (\<lambda>c. (c, Some (PathError Permission)))), []),
               Some (PathError Permission)))
   \<and> serviceExit (exampleEnv (\<lambda>c. c) (\<lambda>c. (c, Some (PathError Permission)))) [] = None"
  by (simp add: eval_defs)

lemma example_denied_readable:
  "\<exists>cfg active.
     snd (loadConfig ((exampleEnv (\<lambda>c. c) (\<lambda>c. (c, Some (PathError Permission))))
        \<lparr>ParseFile := (\<lambda>path st'.
           ((defaultConfig (exampleEnv (\<lambda>c. c) (\<lambda>c. (c, Some (PathError Permission)))), []),
            None))\<rparr>))
       = Loaded cfg [] active None"
  by (simp add: eval_defs)

theorem path_error_is_warning_witness:
  "\<exists>cfg active.
     loadConfig (exampleEnv (\<lambda>c. c) (\<lambda>c. (c, Some (PathError Permission))))
       = ([''/home/u/.btcd/btcd.conf''], Loaded cfg [] active (Some Permission))"
proof -
  let ?e = "exampleEnv (\<lambda>c. c) (\<lambda>c. (c, Some (PathError Permission)))"
  from example_denied obtain preCfg where
    a: "MkdirAll ?e (btcdHomeDir ?e) = None"
    and p: "prePass ?e = (preCfg, [])" "\<not> ShowVersion preCfg"
    and n: "\<not> RegressionTest preCfg" "\<not> SimNet preCfg"
    and c: "ConfigFile preCfg = ''/home/u/.btcd/btcd.conf''"
    and f: "ParseFile ?e (ConfigFile preCfg) (defaultConfig ?e, [])
            = ((defaultConfig ?e, []), Some (PathError Permission))"
    and s: "serviceExit ?e [] = None"
    by blast
  from n have n': "\<not> (RegressionTest preCfg \<or> SimNet preCfg)
      \<or> ConfigFile preCfg \<noteq> defaultConfigFile ?e" by simp
  from example_denied_readable obtain cfg active where
    l: "snd (loadConfig (?e\<lparr>ParseFile := (\<lambda>path st'. ((defaultConfig ?e, []), None))\<rparr>))
       = Loaded cfg [] active None" by blast
  from path_error_is_warning [OF a p(1) p(2) s n' f]
  have "loadConfig ?e =
      ([ConfigFile preCfg],
       withWarning (Some Permission)
         (snd (loadConfig (?e\<lparr>ParseFile := (\<lambda>path st'. ((defaultConfig ?e, []), None))\<rparr>))))"
    by blast
  then have "loadConfig ?e
       = ([''/home/u/.btcd/btcd.conf''], Loaded cfg [] active (Some Permission))"
    by (simp only: l c withWarning.simps)
  then show ?thesis by blast
qed


end
